theory Spec2Isabelle
  imports Main "HOL-Library.Multiset" "HOL-Library.List_Lexorder" "HOL-Library.Product_Lexorder"
    "HOL-Library.Char_ord" "HOL-Library.Word"
begin

section \<open>Identifiers, property values, results\<close>

text \<open>
  The in-memory storage of \<^verbatim>\<open>src/storage/v2/edge_accessor.cpp\<close> (which holds the edge
  accessor, the in-memory unique constraints and the in-memory storage with its accessor).
  64-bit identifiers and timestamps are natural numbers: the code only compares and
  increments them. A pointer to a vertex or to an edge is the \<open>Gid\<close> of the object, the key
  of the skip list that owns it.
\<close>

type_synonym Gid = nat
type_synonym LabelId = nat
type_synonym PropertyId = nat
type_synonym EdgeTypeId = nat

datatype PropertyValue = Null | PBool bool | PInt int | PString string

fun IsNull :: "PropertyValue \<Rightarrow> bool" where
  "IsNull Null = True"
| "IsNull _ = False"

text \<open>The order of property values (type tag first, then the payload), used by the
  sorted sets of the unique constraints.\<close>

fun pv_key :: "PropertyValue \<Rightarrow> nat \<times> bool \<times> int \<times> string" where
  "pv_key Null = (0, False, 0, [])"
| "pv_key (PBool b) = (1, b, 0, [])"
| "pv_key (PInt i) = (2, False, i, [])"
| "pv_key (PString s) = (3, False, 0, s)"

lemma pv_key_inj: "pv_key x = pv_key y \<Longrightarrow> x = y"
  by (cases x; cases y) simp_all

instantiation PropertyValue :: linorder
begin

definition less_eq_PropertyValue :: "PropertyValue \<Rightarrow> PropertyValue \<Rightarrow> bool" where
  "less_eq_PropertyValue x y \<longleftrightarrow> pv_key x \<le> pv_key y"

definition less_PropertyValue :: "PropertyValue \<Rightarrow> PropertyValue \<Rightarrow> bool" where
  "less_PropertyValue x y \<longleftrightarrow> pv_key x < pv_key y"

instance
proof
  fix x y z :: PropertyValue
  show "x < y \<longleftrightarrow> x \<le> y \<and> \<not> y \<le> x"
    unfolding less_eq_PropertyValue_def less_PropertyValue_def by (rule less_le_not_le)
  show "x \<le> x"
    unfolding less_eq_PropertyValue_def by simp
  show "x \<le> y \<Longrightarrow> y \<le> z \<Longrightarrow> x \<le> z"
    unfolding less_eq_PropertyValue_def by (rule order_trans)
  show "x \<le> y \<Longrightarrow> y \<le> x \<Longrightarrow> x = y"
    unfolding less_eq_PropertyValue_def by (rule pv_key_inj) (rule antisym)
  show "x \<le> y \<or> y \<le> x"
    unfolding less_eq_PropertyValue_def by (rule linear)
qed

end

datatype Error = SERIALIZATION_ERROR | DELETED_OBJECT | NONEXISTENT_OBJECT
  | VERTEX_HAS_EDGES | PROPERTIES_DISABLED

text \<open>A failed \<^verbatim>\<open>MG_ASSERT\<close> or \<^verbatim>\<open>LOG_FATAL\<close> ends the process: \<open>Fatal\<close>. An error of
  \<^verbatim>\<open>Result<T>\<close> is \<open>Err\<close>.\<close>

datatype Failure = Fatal | Err Error

type_synonym 'a Result = "Failure + 'a"

section \<open>Vertices, edges, deltas, transactions\<close>

datatype EdgeRef = EdgeRefGid Gid | EdgeRefPtr Gid

type_synonym Link = "EdgeTypeId \<times> Gid \<times> EdgeRef"

datatype Action =
    DELETE_DESERIALIZED_OBJECT
  | DELETE_OBJECT
  | RECREATE_OBJECT
  | SET_PROPERTY PropertyId PropertyValue
  | ADD_LABEL LabelId
  | REMOVE_LABEL LabelId
  | ADD_IN_EDGE EdgeTypeId Gid EdgeRef
  | ADD_OUT_EDGE EdgeTypeId Gid EdgeRef
  | REMOVE_IN_EDGE EdgeTypeId Gid EdgeRef
  | REMOVE_OUT_EDGE EdgeTypeId Gid EdgeRef

datatype Owner = OwnerVertex Gid | OwnerEdge Gid

text \<open>
  A delta. \<open>timestamp\<close> is the pointer to the timestamp cell it shares with the other deltas
  of its transaction; the cell is named by the id of that transaction, and \<open>did\<close> is the
  position of the delta in the transaction's buffer, so the two together are the address of
  the delta. The chain of an object is the list of its deltas from the head (newest) on:
  \<open>next\<close> of a delta is the rest of the list, and \<open>prev\<close> is read off the chain of the
  object the delta was linked to (\<open>owner\<close>), see \<open>prev_Get\<close>.
\<close>

record Delta =
  did :: nat
  timestamp :: nat
  action :: Action
  owner :: Owner

record Vertex =
  gid :: Gid
  labels :: "LabelId list"
  properties :: "PropertyId \<Rightarrow> PropertyValue"
  in_edges :: "Link list"
  out_edges :: "Link list"
  deleted :: bool
  delta :: "Delta list"

record Edge =
  e_gid :: Gid
  e_properties :: "PropertyId \<Rightarrow> PropertyValue"
  e_deleted :: bool
  e_delta :: "Delta list"

record Transaction =
  transaction_id :: nat
  start_timestamp :: nat
  deltas :: "Delta list"
  must_abort :: bool

datatype ReplicationRole = MAIN | REPLICA

datatype ConstraintViolationType = EXISTENCE | UNIQUE

type_synonym ConstraintViolation = "ConstraintViolationType \<times> LabelId \<times> PropertyId list"

text \<open>An entry of a unique constraint's skip list: \<open>(values, vertex, timestamp)\<close>, ordered
  as \<^verbatim>\<open>Entry::operator<\<close> orders it (values first, then vertex and timestamp), which is the
  lexicographic order of the triple.\<close>

type_synonym Entry = "PropertyValue list \<times> Gid \<times> nat"

datatype WalRecord =
    WalDelta Delta Owner nat
  | WalTransactionEnd nat

text \<open>
  The storage. \<open>commit_timestamps\<close> holds the timestamp cells: the cell of transaction \<open>t\<close>
  holds \<open>t\<close> until a commit stores the commit timestamp in it. A property store is a total
  function, \<open>Null\<close> standing for an absent key (setting a value to null removes the key).
  Field names drop the trailing underscore of the members they stand for.
  \<open>constraints\<close> is the \<^verbatim>\<open>std::map\<close> from (label, properties) to the constraint's sorted
  set, in key order, and \<open>constraints_by_label\<close> lists the keys registered in the
  by-label structure, whose values point into \<open>constraints\<close>.
\<close>

record Storage =
  vertices :: "Gid \<Rightarrow> Vertex option"
  edges :: "Gid \<Rightarrow> Edge option"
  vertex_id :: nat
  edge_id :: nat
  edge_count :: "64 word"
  storage_timestamp :: nat
  storage_transaction_id :: nat
  commit_timestamps :: "nat \<Rightarrow> nat option"
  commit_log :: "nat list"
  committed_transactions :: "Transaction list"
  garbage_undo_buffers :: "(nat \<times> Delta list) list"
  deleted_vertices :: "Gid list"
  deleted_edges :: "Gid list"
  garbage_vertices :: "(nat \<times> Gid) list"
  constraints :: "((LabelId \<times> PropertyId list) \<times> Entry list) list"
  constraints_by_label :: "(LabelId \<times> PropertyId list) list"
  existence_constraints :: "(LabelId \<times> PropertyId) list"
  wal_enabled :: bool
  wal_file :: "WalRecord list"
  replication_role :: ReplicationRole
  replicas_confirm :: bool

record Accessor =
  transaction :: Transaction
  is_transaction_active :: bool
  commit_timestamp :: "nat option"
  properties_on_edges :: bool

record VertexAccessor =
  va_vertex :: Gid
  va_transaction :: nat

record EdgeAccessor =
  ea_edge :: EdgeRef
  ea_edge_type :: EdgeTypeId
  ea_from_vertex :: Gid
  ea_to_vertex :: Gid
  ea_transaction :: nat

section \<open>Vectors with swap-and-pop removal\<close>

fun find_index :: "'a \<Rightarrow> 'a list \<Rightarrow> nat option" where
  "find_index x [] = None"
| "find_index x (y # ys) =
     (if x = y then Some 0 else map_option Suc (find_index x ys))"

definition swap_pop :: "nat \<Rightarrow> 'a list \<Rightarrow> 'a list" where
  "swap_pop i xs = butlast (xs[i := last xs])"

section \<open>Version chains\<close>

definition load_timestamp :: "Storage \<Rightarrow> Delta \<Rightarrow> nat" where
  "load_timestamp s d =
     (case commit_timestamps s (timestamp d) of None \<Rightarrow> timestamp d | Some c \<Rightarrow> c)"

definition upd_vertex :: "Gid \<Rightarrow> (Vertex \<Rightarrow> Vertex) \<Rightarrow> Storage \<Rightarrow> Storage" where
  "upd_vertex g f s = s\<lparr>vertices := (vertices s)(g := map_option f (vertices s g))\<rparr>"

definition upd_edge :: "Gid \<Rightarrow> (Edge \<Rightarrow> Edge) \<Rightarrow> Storage \<Rightarrow> Storage" where
  "upd_edge g f s = s\<lparr>edges := (edges s)(g := map_option f (edges s g))\<rparr>"

text \<open>
  Modelled from the spec: \<^verbatim>\<open>PrepareForWrite\<close> of \<^verbatim>\<open>storage/v2/mvcc.hpp\<close>, which is not
  among the sources. "If the head delta exists and its timestamp is a foreign transaction
  id, fail": the cell of the head delta still holds a transaction id (nothing was committed
  into it) and it is not the id of the writer.
\<close>

definition PrepareForWrite :: "Storage \<Rightarrow> Transaction \<Rightarrow> Delta list \<Rightarrow> bool" where
  "PrepareForWrite s t chain =
     (case chain of
        [] \<Rightarrow> True
      | d # _ \<Rightarrow> \<not> (commit_timestamps s (timestamp d) = None \<and> timestamp d \<noteq> transaction_id t))"

text \<open>
  Modelled from the spec: \<^verbatim>\<open>CreateAndLinkDelta\<close> and \<^verbatim>\<open>CreateDeleteObjectDelta\<close> of
  \<^verbatim>\<open>storage/v2/mvcc.hpp\<close>, which is not among the sources. The writer "allocates a
  compensating delta, sets its timestamp = txn.id, links next = old_head, links the back
  pointer of the old head to this new delta" and makes it the head of the object's chain.
  The delta is allocated at the end of the transaction's buffer.
\<close>

definition new_delta :: "Transaction \<Rightarrow> Owner \<Rightarrow> Action \<Rightarrow> Delta" where
  "new_delta t ow a =
     \<lparr>did = length (deltas t), timestamp = transaction_id t, action = a, owner = ow\<rparr>"

definition push_delta :: "Transaction \<Rightarrow> Delta \<Rightarrow> Transaction" where
  "push_delta t d = t\<lparr>deltas := deltas t @ [d]\<rparr>"

definition CreateAndLinkDelta_vertex ::
  "Gid \<Rightarrow> Action \<Rightarrow> Storage \<times> Transaction \<Rightarrow> Storage \<times> Transaction" where
  "CreateAndLinkDelta_vertex g a st =
     (let d = new_delta (snd st) (OwnerVertex g) a
      in (upd_vertex g (\<lambda>v. v\<lparr>delta := d # delta v\<rparr>) (fst st), push_delta (snd st) d))"

definition CreateAndLinkDelta_edge ::
  "Gid \<Rightarrow> Action \<Rightarrow> Storage \<times> Transaction \<Rightarrow> Storage \<times> Transaction" where
  "CreateAndLinkDelta_edge g a st =
     (let d = new_delta (snd st) (OwnerEdge g) a
      in (upd_edge g (\<lambda>e. e\<lparr>e_delta := d # e_delta e\<rparr>) (fst st), push_delta (snd st) d))"


definition CreateDeleteObjectDelta :: "Transaction \<Rightarrow> Owner \<Rightarrow> Delta \<times> Transaction" where
  "CreateDeleteObjectDelta t ow =
     (let d = new_delta t ow DELETE_OBJECT in (d, push_delta t d))"

definition vertex_out_edges :: "Storage \<Rightarrow> Gid \<Rightarrow> Link list" where
  "vertex_out_edges s g = (case vertices s g of None \<Rightarrow> [] | Some v \<Rightarrow> out_edges v)"

definition vertex_in_edges :: "Storage \<Rightarrow> Gid \<Rightarrow> Link list" where
  "vertex_in_edges s g = (case vertices s g of None \<Rightarrow> [] | Some v \<Rightarrow> in_edges v)"

definition vertex_delta :: "Storage \<Rightarrow> Gid \<Rightarrow> Delta list" where
  "vertex_delta s g = (case vertices s g of None \<Rightarrow> [] | Some v \<Rightarrow> delta v)"

text \<open>Dereferencing the \<^verbatim>\<open>ptr\<close> member of an edge reference: only a reference made from an
  edge object points to one.\<close>

definition deref_edge :: "Storage \<Rightarrow> EdgeRef \<Rightarrow> (Gid \<times> Edge) option" where
  "deref_edge s r =
     (case r of
        EdgeRefGid g \<Rightarrow> None
      | EdgeRefPtr g \<Rightarrow> map_option (Pair g) (edges s g))"

section \<open>EdgeAccessor::SetProperty\<close>

text \<open>
  \<^verbatim>\<open>EdgeAccessor::SetProperty\<close> (lines 18-54). The accessor's \<^verbatim>\<open>transaction_\<close> points to
  the transaction passed here with the storage. \<^verbatim>\<open>properties.find\<close> finds a key when its
  value is not null; erasing a key stores \<open>Null\<close>.
\<close>

definition EdgeAccessor_SetProperty ::
  "EdgeAccessor \<Rightarrow> PropertyId \<Rightarrow> PropertyValue \<Rightarrow> Storage \<times> Transaction
    \<Rightarrow> bool Result \<times> Storage \<times> Transaction" where
  "EdgeAccessor_SetProperty ea property val st =
     (case deref_edge (fst st) (ea_edge ea) of
        None \<Rightarrow> (Inl Fatal, st)
      | Some (g, e) \<Rightarrow>
          if \<not> PrepareForWrite (fst st) (snd st) (e_delta e) then (Inl (Err SERIALIZATION_ERROR), st)
          else if e_deleted e then (Inl (Err DELETED_OBJECT), st)
          else
            let existed = (e_properties e property \<noteq> Null)
            in if existed then
                 let st1 = CreateAndLinkDelta_edge g (SET_PROPERTY property (e_properties e property)) st
                 in if IsNull val
                    then (Inr (\<not> existed),
                          upd_edge g (\<lambda>x. x\<lparr>e_properties := (e_properties x)(property := Null)\<rparr>) (fst st1),
                          snd st1)
                    else (Inr (\<not> existed),
                          upd_edge g (\<lambda>x. x\<lparr>e_properties := (e_properties x)(property := val)\<rparr>) (fst st1),
                          snd st1)
               else
                 let st1 = CreateAndLinkDelta_edge g (SET_PROPERTY property Null) st
                 in if \<not> IsNull val
                    then (Inr (\<not> existed),
                          upd_edge g (\<lambda>x. x\<lparr>e_properties := (e_properties x)(property := val)\<rparr>) (fst st1),
                          snd st1)
                    else (Inr (\<not> existed), st1))"

text \<open>
  Modelled from the spec: \<^verbatim>\<open>SetProperty\<close> of the edge accessor of a storage with a
  configuration, the accessor that \<^verbatim>\<open>CreateEdge\<close> returns. Its source is not among the
  sources (the accessor of lines 8-152 holds a pointer to an edge object and no
  configuration). "When properties-on-edges is disabled, \<^verbatim>\<open>SetProperty\<close> on an edge returns
  \<^verbatim>\<open>PROPERTIES_DISABLED\<close>"; with properties on edges it is the write of lines 18-54.
  \<open>poe\<close> is \<^verbatim>\<open>properties_on_edges\<close> of the configuration.
\<close>

definition EdgeAccessor_SetProperty_configured ::
  "bool \<Rightarrow> EdgeAccessor \<Rightarrow> PropertyId \<Rightarrow> PropertyValue \<Rightarrow> Storage \<times> Transaction
    \<Rightarrow> bool Result \<times> Storage \<times> Transaction" where
  "EdgeAccessor_SetProperty_configured poe ea property val st =
     (if \<not> poe then (Inl (Err PROPERTIES_DISABLED), st)
      else EdgeAccessor_SetProperty ea property val st)"

section \<open>The storage accessor: creating vertices and edges\<close>

text \<open>The per-transaction cache of adjacency views (\<^verbatim>\<open>manyDeltasCache\<close>) and the locks are
  not part of the state: every operation runs from its first to its last line on its own.\<close>

definition new_vertex :: "Gid \<Rightarrow> Delta \<Rightarrow> Vertex" where
  "new_vertex g d =
     \<lparr>gid = g, labels = [], properties = (\<lambda>_. Null), in_edges = [], out_edges = [],
      deleted = False, delta = [d]\<rparr>"

definition new_edge :: "Gid \<Rightarrow> Delta \<Rightarrow> Edge" where
  "new_edge g d = \<lparr>e_gid = g, e_properties = (\<lambda>_. Null), e_deleted = False, e_delta = [d]\<rparr>"

definition CreateVertex :: "Storage \<times> Accessor \<Rightarrow> VertexAccessor Result \<times> Storage \<times> Accessor" where
  "CreateVertex sa =
     (let s = fst sa; acc = snd sa;
          g = vertex_id s;
          s1 = s\<lparr>vertex_id := g + 1\<rparr>;
          (d, t1) = CreateDeleteObjectDelta (transaction acc) (OwnerVertex g);
          acc1 = acc\<lparr>transaction := t1\<rparr>
      in if vertices s1 g \<noteq> None then (Inl Fatal, s1, acc1)
         else (Inr \<lparr>va_vertex = g, va_transaction = transaction_id t1\<rparr>,
               s1\<lparr>vertices := (vertices s1)(g \<mapsto> new_vertex g d)\<rparr>, acc1))"

definition CreateEdge ::
  "VertexAccessor \<Rightarrow> VertexAccessor \<Rightarrow> EdgeTypeId \<Rightarrow> Storage \<times> Accessor
    \<Rightarrow> EdgeAccessor Result \<times> Storage \<times> Accessor" where
  "CreateEdge from_va to_va edge_type sa =
     (let s = fst sa; acc = snd sa; t = transaction acc;
          from_vertex = va_vertex from_va; to_vertex = va_vertex to_va
      in if va_transaction from_va \<noteq> va_transaction to_va then (Inl Fatal, sa)
         else if va_transaction from_va \<noteq> transaction_id t then (Inl Fatal, sa)
         else case (vertices s from_vertex, vertices s to_vertex) of
           (Some fv, Some tv) \<Rightarrow>
             if \<not> PrepareForWrite s t (delta fv) then (Inl (Err SERIALIZATION_ERROR), sa)
             else if deleted fv then (Inl (Err DELETED_OBJECT), sa)
             else if to_vertex \<noteq> from_vertex \<and> \<not> PrepareForWrite s t (delta tv)
               then (Inl (Err SERIALIZATION_ERROR), sa)
             else if to_vertex \<noteq> from_vertex \<and> deleted tv then (Inl (Err DELETED_OBJECT), sa)
             else
               let g = edge_id s;
                   s1 = s\<lparr>edge_id := g + 1\<rparr>
               in if properties_on_edges acc \<and> edges s1 g \<noteq> None
                  then (Inl Fatal, s1, acc\<lparr>transaction := snd (CreateDeleteObjectDelta t (OwnerEdge g))\<rparr>)
                  else
                    let (r, st2) =
                          (if properties_on_edges acc
                           then let (d, t1) = CreateDeleteObjectDelta t (OwnerEdge g)
                                in (EdgeRefPtr g, s1\<lparr>edges := (edges s1)(g \<mapsto> new_edge g d)\<rparr>, t1)
                           else (EdgeRefGid g, s1, t));
                        st3 = CreateAndLinkDelta_vertex from_vertex
                                (REMOVE_OUT_EDGE edge_type to_vertex r) st2;
                        st4 = (upd_vertex from_vertex
                                (\<lambda>v. v\<lparr>out_edges := out_edges v @ [(edge_type, to_vertex, r)]\<rparr>) (fst st3),
                               snd st3);
                        st5 = CreateAndLinkDelta_vertex to_vertex
                                (REMOVE_IN_EDGE edge_type from_vertex r) st4;
                        st6 = (upd_vertex to_vertex
                                (\<lambda>v. v\<lparr>in_edges := in_edges v @ [(edge_type, from_vertex, r)]\<rparr>) (fst st5),
                               snd st5);
                        s7 = (fst st6)\<lparr>edge_count := edge_count (fst st6) + 1\<rparr>
                    in (Inr \<lparr>ea_edge = r, ea_edge_type = edge_type, ea_from_vertex = from_vertex,
                             ea_to_vertex = to_vertex, ea_transaction = transaction_id t\<rparr>,
                        s7, acc\<lparr>transaction := snd st6\<rparr>)
         | _ \<Rightarrow> (Inl Fatal, sa))"

section \<open>Re-targeting an edge\<close>

text \<open>The lambda \<^verbatim>\<open>delete_edge_from_storage\<close>: \<open>None\<close> is the failed assertion.\<close>

definition delete_edge_from_storage :: "bool \<Rightarrow> Link \<Rightarrow> Link list \<Rightarrow> (bool \<times> Link list) option" where
  "delete_edge_from_storage poe link es =
     (case find_index link es of
        None \<Rightarrow> if poe then None else Some (False, es)
      | Some i \<Rightarrow> Some (True, swap_pop i es))"

text \<open>The vertices to lock: sorted by gid, with neighbours of equal gid merged.\<close>

definition lock_order :: "Storage \<Rightarrow> Gid list \<Rightarrow> Gid list" where
  "lock_order s ps =
     remdups_adj (sort_key (\<lambda>p. case vertices s p of None \<Rightarrow> 0 | Some v \<Rightarrow> gid v) ps)"

text \<open>The checks on the edge object, made only when edges carry properties.\<close>

definition prepare_edge :: "Storage \<times> Accessor \<Rightarrow> EdgeRef \<Rightarrow> Failure option" where
  "prepare_edge sa r =
     (if properties_on_edges (snd sa) then
        (case deref_edge (fst sa) r of
           None \<Rightarrow> Some Fatal
         | Some (g, e) \<Rightarrow>
             if \<not> PrepareForWrite (fst sa) (transaction (snd sa)) (e_delta e)
               then Some (Err SERIALIZATION_ERROR)
             else if e_deleted e then Some (Err DELETED_OBJECT)
             else None)
      else None)"

text \<open>The part of \<^verbatim>\<open>EdgeSetTo\<close> and \<^verbatim>\<open>EdgeSetFrom\<close> after the checks: the old adjacency
  entries are removed from \<open>src\<close> (the old from-vertex) and \<open>dst\<close> (the old to-vertex), and
  the edge is linked between \<open>src'\<close> and \<open>dst'\<close>.\<close>

definition relink_edge ::
  "bool \<Rightarrow> EdgeTypeId \<Rightarrow> EdgeRef \<Rightarrow> Gid \<Rightarrow> Gid \<Rightarrow> Gid \<Rightarrow> Gid \<Rightarrow> Storage \<times> Transaction
    \<Rightarrow> unit Result \<times> Storage \<times> Transaction" where
  "relink_edge poe edge_type r src dst src' dst' st =
     (case delete_edge_from_storage poe (edge_type, dst, r) (vertex_out_edges (fst st) src) of
        None \<Rightarrow> (Inl Fatal, st)
      | Some (op1, out') \<Rightarrow>
          let s1 = upd_vertex src (\<lambda>v. v\<lparr>out_edges := out'\<rparr>) (fst st)
          in case delete_edge_from_storage poe (edge_type, src, r) (vertex_in_edges s1 dst) of
               None \<Rightarrow> (Inl Fatal, s1, snd st)
             | Some (op2, in') \<Rightarrow>
                 let s2 = upd_vertex dst (\<lambda>v. v\<lparr>in_edges := in'\<rparr>) s1
                 in if poe \<and> \<not> (op1 \<and> op2) then (Inl Fatal, s2, snd st)
                    else if \<not> poe \<and> \<not> ((op1 \<and> op2) \<or> (\<not> op1 \<and> \<not> op2)) then (Inl Fatal, s2, snd st)
                    else if \<not> poe \<and> \<not> op1 \<and> \<not> op2 then (Inl (Err DELETED_OBJECT), s2, snd st)
                    else
                      let st3 = CreateAndLinkDelta_vertex src (ADD_OUT_EDGE edge_type dst r) (s2, snd st);
                          st4 = CreateAndLinkDelta_vertex dst (ADD_IN_EDGE edge_type src r) st3;
                          st5 = CreateAndLinkDelta_vertex src' (REMOVE_OUT_EDGE edge_type dst' r) st4;
                          st6 = (upd_vertex src'
                                  (\<lambda>v. v\<lparr>out_edges := out_edges v @ [(edge_type, dst', r)]\<rparr>) (fst st5),
                                 snd st5);
                          st7 = CreateAndLinkDelta_vertex dst' (REMOVE_IN_EDGE edge_type src' r) st6;
                          st8 = (upd_vertex dst'
                                  (\<lambda>v. v\<lparr>in_edges := in_edges v @ [(edge_type, src', r)]\<rparr>) (fst st7),
                                 snd st7)
                      in (Inr (), st8))"


text \<open>\<^verbatim>\<open>PrepareForWrite\<close> on an endpoint, followed by the assertion that it is not deleted.\<close>

definition prepare_vertex :: "Storage \<Rightarrow> Transaction \<Rightarrow> Gid \<Rightarrow> Failure option" where
  "prepare_vertex s t g =
     (case vertices s g of
        None \<Rightarrow> Some Fatal
      | Some v \<Rightarrow>
          if \<not> PrepareForWrite s t (delta v) then Some (Err SERIALIZATION_ERROR)
          else if deleted v then Some Fatal
          else None)"

definition EdgeSetFrom ::
  "EdgeAccessor \<Rightarrow> VertexAccessor \<Rightarrow> Storage \<times> Accessor \<Rightarrow> EdgeAccessor Result \<times> Storage \<times> Accessor" where
  "EdgeSetFrom edge new_from sa =
     (let s = fst sa; acc = snd sa; t = transaction acc;
          old_from_vertex = ea_from_vertex edge;
          new_from_vertex = va_vertex new_from;
          to_vertex = ea_to_vertex edge
      in if ea_transaction edge \<noteq> va_transaction new_from then (Inl Fatal, sa)
         else if ea_transaction edge \<noteq> transaction_id t then (Inl Fatal, sa)
         else case (vertices s old_from_vertex, vertices s new_from_vertex) of
           (Some ov, Some nv) \<Rightarrow>
             if gid ov = gid nv then (Inr edge, sa)
             else (case prepare_edge sa (ea_edge edge) of
                Some f \<Rightarrow> (Inl f, sa)
              | None \<Rightarrow>
                 if list_ex (\<lambda>p. p \<noteq> old_from_vertex \<and> p \<noteq> new_from_vertex \<and> p \<noteq> to_vertex)
                      (lock_order s [old_from_vertex, new_from_vertex, to_vertex])
                   then (Inl (Err NONEXISTENT_OBJECT), sa)
                 else (case prepare_vertex s t old_from_vertex of
                    Some f \<Rightarrow> (Inl f, sa)
                  | None \<Rightarrow>
                 (case prepare_vertex s t new_from_vertex of
                    Some f \<Rightarrow> (Inl f, sa)
                  | None \<Rightarrow>
                 (case (if to_vertex \<noteq> old_from_vertex \<and> to_vertex \<noteq> new_from_vertex
                        then prepare_vertex s t to_vertex else None) of
                    Some f \<Rightarrow> (Inl f, sa)
                  | None \<Rightarrow>
                     (case relink_edge (properties_on_edges acc) (ea_edge_type edge) (ea_edge edge)
                             old_from_vertex to_vertex new_from_vertex to_vertex (s, t) of
                        (Inl f, s', t') \<Rightarrow> (Inl f, s', acc\<lparr>transaction := t'\<rparr>)
                      | (Inr _, s', t') \<Rightarrow>
                          (Inr (edge\<lparr>ea_from_vertex := new_from_vertex\<rparr>), s',
                           acc\<lparr>transaction := t'\<rparr>))))))
         | _ \<Rightarrow> (Inl Fatal, sa))"

definition EdgeSetTo ::
  "EdgeAccessor \<Rightarrow> VertexAccessor \<Rightarrow> Storage \<times> Accessor \<Rightarrow> EdgeAccessor Result \<times> Storage \<times> Accessor" where
  "EdgeSetTo edge new_to sa =
     (let s = fst sa; acc = snd sa; t = transaction acc;
          from_vertex = ea_from_vertex edge;
          old_to_vertex = ea_to_vertex edge;
          new_to_vertex = va_vertex new_to
      in if ea_transaction edge \<noteq> va_transaction new_to then (Inl Fatal, sa)
         else if ea_transaction edge \<noteq> transaction_id t then (Inl Fatal, sa)
         else case (vertices s old_to_vertex, vertices s new_to_vertex) of
           (Some ov, Some nv) \<Rightarrow>
             if gid ov = gid nv then (Inr edge, sa)
             else (case prepare_edge sa (ea_edge edge) of
                Some f \<Rightarrow> (Inl f, sa)
              | None \<Rightarrow>
                 if list_ex (\<lambda>p. p \<noteq> from_vertex \<and> p \<noteq> old_to_vertex \<and> p \<noteq> new_to_vertex)
                      (lock_order s [from_vertex, old_to_vertex, new_to_vertex])
                   then (Inl (Err NONEXISTENT_OBJECT), sa)
                 else (case prepare_vertex s t old_to_vertex of
                    Some f \<Rightarrow> (Inl f, sa)
                  | None \<Rightarrow>
                 (case prepare_vertex s t new_to_vertex of
                    Some f \<Rightarrow> (Inl f, sa)
                  | None \<Rightarrow>
                 (case (if from_vertex \<noteq> old_to_vertex \<and> from_vertex \<noteq> new_to_vertex
                        then prepare_vertex s t from_vertex else None) of
                    Some f \<Rightarrow> (Inl f, sa)
                  | None \<Rightarrow>
                     (case relink_edge (properties_on_edges acc) (ea_edge_type edge) (ea_edge edge)
                             from_vertex old_to_vertex from_vertex new_to_vertex (s, t) of
                        (Inl f, s', t') \<Rightarrow> (Inl f, s', acc\<lparr>transaction := t'\<rparr>)
                      | (Inr _, s', t') \<Rightarrow>
                          (Inr (edge\<lparr>ea_to_vertex := new_to_vertex\<rparr>), s',
                           acc\<lparr>transaction := t'\<rparr>))))))
         | _ \<Rightarrow> (Inl Fatal, sa))"


section \<open>Unique constraints\<close>

text \<open>
  Modelled from the spec: \<^verbatim>\<open>kUniqueConstraintsMaxProperties\<close>, declared in a header that
  is not among the sources; creation "limits the number of properties to a fixed maximum
  (typically 4)".
\<close>

definition kUniqueConstraintsMaxProperties :: nat where
  "kUniqueConstraintsMaxProperties = 4"

text \<open>
  Modelled from the spec: \<^verbatim>\<open>PropertyStore::ExtractPropertyValues\<close> and
  \<^verbatim>\<open>PropertyStore::IsPropertyEqual\<close> (the property store is not among the sources).
  "\<^verbatim>\<open>ExtractPropertyValues(keys)\<close> returns \<^verbatim>\<open>Some(vec)\<close> only when all keys are present";
  the equality probe compares the stored value of one key with a value. A
  \<^verbatim>\<open>std::set<PropertyId>\<close> is the list of its elements in ascending order.
\<close>

definition ExtractPropertyValues ::
  "(PropertyId \<Rightarrow> PropertyValue) \<Rightarrow> PropertyId list \<Rightarrow> PropertyValue list option" where
  "ExtractPropertyValues ps keys =
     (if list_all (\<lambda>k. ps k \<noteq> Null) keys then Some (map ps keys) else None)"

definition IsPropertyEqual :: "(PropertyId \<Rightarrow> PropertyValue) \<Rightarrow> PropertyId \<Rightarrow> PropertyValue \<Rightarrow> bool" where
  "IsPropertyEqual ps k v \<longleftrightarrow> ps k = v"

text \<open>The skip list of entries is the sorted list of its elements.
  \<^verbatim>\<open>find_equal_or_greater\<close> with a vector of values returns the position of the first
  entry whose values are not less than the vector: the rest of the list from there.\<close>

definition find_equal_or_greater :: "PropertyValue list \<Rightarrow> Entry list \<Rightarrow> Entry list" where
  "find_equal_or_greater vals es = dropWhile (\<lambda>e. fst e < vals) es"

definition skiplist_insert :: "Entry \<Rightarrow> Entry list \<Rightarrow> Entry list" where
  "skiplist_insert e es = (if e \<in> set es then es else insort e es)"

text \<open>\<^verbatim>\<open>std::map\<close> as the list of its pairs in key order: \<^verbatim>\<open>emplace\<close>, \<^verbatim>\<open>erase\<close>,
  \<^verbatim>\<open>at\<close>.\<close>

definition map_emplace :: "'k::linorder \<Rightarrow> 'v \<Rightarrow> ('k \<times> 'v) list \<Rightarrow> ('k \<times> 'v) list \<times> bool" where
  "map_emplace k v m =
     (if k \<in> fst ` set m then (m, False) else (insort_key fst (k, v) m, True))"

definition map_erase :: "'k \<Rightarrow> ('k \<times> 'v) list \<Rightarrow> ('k \<times> 'v) list" where
  "map_erase k m = filter (\<lambda>kv. fst kv \<noteq> k) m"

definition map_set :: "'k \<Rightarrow> 'v \<Rightarrow> ('k \<times> 'v) list \<Rightarrow> ('k \<times> 'v) list" where
  "map_set k v m = map (\<lambda>kv. if fst kv = k then (k, v) else kv) m"

datatype CreationStatus =
  SUCCESS | ALREADY_EXISTS | EMPTY_PROPERTIES | PROPERTIES_SIZE_LIMIT_EXCEEDED

text \<open>The loop of \<^verbatim>\<open>CreateConstraint\<close> over the vertices (lines 452-470): the flag
  \<^verbatim>\<open>violation_found\<close> and the entries inserted so far.\<close>

fun scan_vertices ::
  "LabelId \<Rightarrow> PropertyId list \<Rightarrow> Vertex list \<Rightarrow> Entry list \<Rightarrow> bool \<times> Entry list" where
  "scan_vertices label props [] acc = (False, acc)"
| "scan_vertices label props (vertex # rest) acc =
     (if deleted vertex \<or> label \<notin> set (labels vertex) then scan_vertices label props rest acc
      else case ExtractPropertyValues (properties vertex) props of
        None \<Rightarrow> scan_vertices label props rest acc
      | Some vals \<Rightarrow>
          (case find_equal_or_greater vals acc of
             e # _ \<Rightarrow>
               if fst e = vals then (True, acc)
               else scan_vertices label props rest (skiplist_insert (vals, gid vertex, 0) acc)
           | [] \<Rightarrow> scan_vertices label props rest (skiplist_insert (vals, gid vertex, 0) acc)))"

text \<open>\<^verbatim>\<open>InMemoryUniqueConstraints::CreateConstraint\<close> (lines 429-483); \<open>vs\<close> is the
  sequence of vertices the skip-list accessor iterates over.\<close>

definition CreateConstraint ::
  "LabelId \<Rightarrow> PropertyId list \<Rightarrow> Vertex list \<Rightarrow> Storage
    \<Rightarrow> (ConstraintViolation + CreationStatus) \<times> Storage" where
  "CreateConstraint label props vs s =
     (if props = [] then (Inr EMPTY_PROPERTIES, s)
      else if length props > kUniqueConstraintsMaxProperties
        then (Inr PROPERTIES_SIZE_LIMIT_EXCEEDED, s)
      else
        let (m, emplaced) = map_emplace (label, props) [] (constraints s);
            s1 = s\<lparr>constraints := m\<rparr>
        in if \<not> emplaced then (Inr ALREADY_EXISTS, s1)
           else
             let (violation_found, acc) = scan_vertices label props vs [];
                 s2 = s1\<lparr>constraints := map_set (label, props) acc (constraints s1)\<rparr>
             in if violation_found
                then (Inl (UNIQUE, label, props),
                      s2\<lparr>constraints := map_erase (label, props) (constraints s2)\<rparr>)
                else (Inr SUCCESS,
                      s2\<lparr>constraints_by_label :=
                           insort (label, props) (constraints_by_label s2)\<rparr>))"

text \<open>The value of a vertex under a constraint, as the loop reads it: the values of the
  properties of a vertex that is not deleted, has the label and has every property.\<close>

definition constrained_values :: "LabelId \<Rightarrow> PropertyId list \<Rightarrow> Vertex \<Rightarrow> PropertyValue list option" where
  "constrained_values label props v =
     (if deleted v \<or> label \<notin> set (labels v) then None
      else ExtractPropertyValues (properties v) props)"

section \<open>The back pointer of a delta\<close>

datatype PreviousPtr = PtrVertex Gid | PtrEdge Gid | PtrDelta Delta | PtrNull

text \<open>\<^verbatim>\<open>delta.prev.Get()\<close>: the object itself for the head of its chain, the newer
  neighbour for a delta further down, and the null pointer for a delta that is in no chain.\<close>

fun chain_prev :: "PreviousPtr \<Rightarrow> Delta list \<Rightarrow> Delta \<Rightarrow> PreviousPtr" where
  "chain_prev parent [] d = PtrNull"
| "chain_prev parent (x # xs) d = (if x = d then parent else chain_prev (PtrDelta x) xs d)"

definition prev_Get :: "Storage \<Rightarrow> Delta \<Rightarrow> PreviousPtr" where
  "prev_Get s d =
     (case owner d of
        OwnerVertex g \<Rightarrow>
          (case vertices s g of None \<Rightarrow> PtrNull | Some v \<Rightarrow> chain_prev (PtrVertex g) (delta v) d)
      | OwnerEdge g \<Rightarrow>
          (case edges s g of None \<Rightarrow> PtrNull | Some e \<Rightarrow> chain_prev (PtrEdge g) (e_delta e) d))"

section \<open>The transaction engine\<close>

text \<open>
  Modelled from the spec: the commit log (\<^verbatim>\<open>CommitLog\<close> is not among the sources), which
  "records, per start timestamp, whether that transaction is still live" and answers
  \<^verbatim>\<open>OldestActive()\<close>: the log is the list of the timestamps marked finished, and the
  oldest active timestamp is the least one not in it.
\<close>

definition MarkFinished :: "nat \<Rightarrow> nat list \<Rightarrow> nat list" where
  "MarkFinished ts log = ts # log"


text \<open>The counters \<^verbatim>\<open>timestamp_\<close> and \<^verbatim>\<open>transaction_id_\<close> are 64-bit unsigned integers,
  held here as natural numbers: an increment wraps around at \<open>2 ^ 64\<close>.\<close>

definition CreateTransaction :: "Storage \<Rightarrow> Transaction \<times> Storage" where
  "CreateTransaction s =
     (let transaction_id = storage_transaction_id s;
          s1 = s\<lparr>storage_transaction_id := (transaction_id + 1) mod 2 ^ 64\<rparr>
      in if replication_role s1 = REPLICA
         then (\<lparr>transaction_id = transaction_id, start_timestamp = storage_timestamp s1,
                 deltas = [], must_abort = False\<rparr>, s1)
         else (\<lparr>transaction_id = transaction_id, start_timestamp = storage_timestamp s1,
                 deltas = [], must_abort = False\<rparr>,
               s1\<lparr>storage_timestamp := (storage_timestamp s1 + 1) mod 2 ^ 64\<rparr>))"

text \<open>\<^verbatim>\<open>InMemoryStorage::CommitTimestamp\<close> (lines 2379-2385). The desired timestamp is a
  64-bit word; \<^verbatim>\<open>*desired_commit_timestamp + 1\<close> is computed in 64 bits and wraps.\<close>

definition CommitTimestamp :: "64 word option \<Rightarrow> Storage \<Rightarrow> nat \<times> Storage" where
  "CommitTimestamp desired_commit_timestamp s =
     (case desired_commit_timestamp of
        None \<Rightarrow> (storage_timestamp s, s\<lparr>storage_timestamp := (storage_timestamp s + 1) mod 2 ^ 64\<rparr>)
      | Some d \<Rightarrow> (unat d, s\<lparr>storage_timestamp := max (storage_timestamp s) (unat (d + 1))\<rparr>))"

section \<open>Abort\<close>

text \<open>The switch of \<^verbatim>\<open>Abort\<close> on a delta of a vertex (lines 1379-1451), on the vertex, the
  edge count and the list \<^verbatim>\<open>my_deleted_vertices\<close>; \<open>None\<close> is a failed assertion.
  \<^verbatim>\<open>PropertyStore::SetProperty\<close> stores the value, a null value removing the key.\<close>

fun abort_vertex_action ::
  "Action \<Rightarrow> Vertex \<times> 64 word \<times> Gid list \<Rightarrow> (Vertex \<times> 64 word \<times> Gid list) option" where
  "abort_vertex_action (REMOVE_LABEL l) (v, ec, del) =
     (case find_index l (labels v) of
        None \<Rightarrow> None
      | Some i \<Rightarrow> Some (v\<lparr>labels := swap_pop i (labels v)\<rparr>, ec, del))"
| "abort_vertex_action (ADD_LABEL l) (v, ec, del) =
     (if l \<in> set (labels v) then None else Some (v\<lparr>labels := labels v @ [l]\<rparr>, ec, del))"
| "abort_vertex_action (SET_PROPERTY k x) (v, ec, del) =
     Some (v\<lparr>properties := (properties v)(k := x)\<rparr>, ec, del)"
| "abort_vertex_action (ADD_IN_EDGE ty w e) (v, ec, del) =
     (if (ty, w, e) \<in> set (in_edges v) then None
      else Some (v\<lparr>in_edges := in_edges v @ [(ty, w, e)]\<rparr>, ec, del))"
| "abort_vertex_action (ADD_OUT_EDGE ty w e) (v, ec, del) =
     (if (ty, w, e) \<in> set (out_edges v) then None
      else Some (v\<lparr>out_edges := out_edges v @ [(ty, w, e)]\<rparr>, ec + 1, del))"
| "abort_vertex_action (REMOVE_IN_EDGE ty w e) (v, ec, del) =
     (case find_index (ty, w, e) (in_edges v) of
        None \<Rightarrow> None
      | Some i \<Rightarrow> Some (v\<lparr>in_edges := swap_pop i (in_edges v)\<rparr>, ec, del))"
| "abort_vertex_action (REMOVE_OUT_EDGE ty w e) (v, ec, del) =
     (case find_index (ty, w, e) (out_edges v) of
        None \<Rightarrow> None
      | Some i \<Rightarrow> Some (v\<lparr>out_edges := swap_pop i (out_edges v)\<rparr>, ec - 1, del))"
| "abort_vertex_action DELETE_DESERIALIZED_OBJECT (v, ec, del) =
     Some (v\<lparr>deleted := True\<rparr>, ec, del @ [gid v])"
| "abort_vertex_action DELETE_OBJECT (v, ec, del) =
     Some (v\<lparr>deleted := True\<rparr>, ec, del @ [gid v])"
| "abort_vertex_action RECREATE_OBJECT (v, ec, del) =
     Some (v\<lparr>deleted := False\<rparr>, ec, del)"

text \<open>The loop over the chain of a vertex while the deltas are of the aborting transaction
  (\<open>ts\<close> loads the timestamp of a delta); it returns the rest of the chain.\<close>

fun abort_vertex_loop ::
  "(Delta \<Rightarrow> nat) \<Rightarrow> nat \<Rightarrow> Delta list \<Rightarrow> Vertex \<times> 64 word \<times> Gid list
    \<Rightarrow> (Delta list \<times> Vertex \<times> 64 word \<times> Gid list) option" where
  "abort_vertex_loop ts tid [] st = Some ([], st)"
| "abort_vertex_loop ts tid (current # rest) st =
     (if ts current \<noteq> tid then Some (current # rest, st)
      else case abort_vertex_action (action current) st of
             None \<Rightarrow> None
           | Some st' \<Rightarrow> abort_vertex_loop ts tid rest st')"

fun abort_edge_action :: "Action \<Rightarrow> Edge \<times> Gid list \<Rightarrow> (Edge \<times> Gid list) option" where
  "abort_edge_action (SET_PROPERTY k x) (e, del) =
     Some (e\<lparr>e_properties := (e_properties e)(k := x)\<rparr>, del)"
| "abort_edge_action DELETE_DESERIALIZED_OBJECT (e, del) =
     Some (e\<lparr>e_deleted := True\<rparr>, del @ [e_gid e])"
| "abort_edge_action DELETE_OBJECT (e, del) = Some (e\<lparr>e_deleted := True\<rparr>, del @ [e_gid e])"
| "abort_edge_action RECREATE_OBJECT (e, del) = Some (e\<lparr>e_deleted := False\<rparr>, del)"
| "abort_edge_action _ (e, del) = None"

fun abort_edge_loop ::
  "(Delta \<Rightarrow> nat) \<Rightarrow> nat \<Rightarrow> Delta list \<Rightarrow> Edge \<times> Gid list
    \<Rightarrow> (Delta list \<times> Edge \<times> Gid list) option" where
  "abort_edge_loop ts tid [] st = Some ([], st)"
| "abort_edge_loop ts tid (current # rest) st =
     (if ts current \<noteq> tid then Some (current # rest, st)
      else case abort_edge_action (action current) st of
             None \<Rightarrow> None
           | Some st' \<Rightarrow> abort_edge_loop ts tid rest st')"

text \<open>The body of the loop over the buffer (lines 1370-1506), on the storage and the lists
  \<^verbatim>\<open>my_deleted_vertices\<close> and \<^verbatim>\<open>my_deleted_edges\<close>.\<close>

definition abort_delta ::
  "nat \<Rightarrow> Delta \<Rightarrow> Storage \<times> Gid list \<times> Gid list \<Rightarrow> (Storage \<times> Gid list \<times> Gid list) option" where
  "abort_delta tid d st =
     (let s = fst st; mdv = fst (snd st); mde = snd (snd st)
      in case prev_Get s d of
           PtrVertex g \<Rightarrow>
             (case vertices s g of
                None \<Rightarrow> None
              | Some vertex \<Rightarrow>
                  (case abort_vertex_loop (load_timestamp s) tid (delta vertex)
                          (vertex, edge_count s, mdv) of
                     None \<Rightarrow> None
                   | Some (current, v', ec', mdv') \<Rightarrow>
                       Some (s\<lparr>vertices := (vertices s)(g \<mapsto> v'\<lparr>delta := current\<rparr>),
                               edge_count := ec'\<rparr>, mdv', mde)))
         | PtrEdge g \<Rightarrow>
             (case edges s g of
                None \<Rightarrow> None
              | Some edge \<Rightarrow>
                  (case abort_edge_loop (load_timestamp s) tid (e_delta edge) (edge, mde) of
                     None \<Rightarrow> None
                   | Some (current, e', mde') \<Rightarrow>
                       Some (s\<lparr>edges := (edges s)(g \<mapsto> e'\<lparr>e_delta := current\<rparr>)\<rparr>, mdv, mde')))
         | PtrDelta _ \<Rightarrow> Some st
         | PtrNull \<Rightarrow> Some st)"

fun abort_deltas ::
  "nat \<Rightarrow> Delta list \<Rightarrow> Storage \<times> Gid list \<times> Gid list \<Rightarrow> (Storage \<times> Gid list \<times> Gid list) option" where
  "abort_deltas tid [] st = Some st"
| "abort_deltas tid (d # ds) st =
     (case abort_delta tid d st of None \<Rightarrow> None | Some st' \<Rightarrow> abort_deltas tid ds st')"

text \<open>\<^verbatim>\<open>InMemoryAccessor::Abort\<close> (lines 1361-1529). The buffer is moved to the garbage
  undo buffers, which leaves the transaction without deltas.\<close>

definition Abort :: "Storage \<times> Accessor \<Rightarrow> unit Result \<times> Storage \<times> Accessor" where
  "Abort sa =
     (let s = fst sa; acc = snd sa; t = transaction acc
      in if \<not> is_transaction_active acc then (Inl Fatal, sa)
         else case abort_deltas (transaction_id t) (deltas t) (s, [], []) of
           None \<Rightarrow> (Inl Fatal, sa)
         | Some (s1, my_deleted_vertices, my_deleted_edges) \<Rightarrow>
             let mark_timestamp = storage_timestamp s1;
                 s2 = s1\<lparr>garbage_undo_buffers := garbage_undo_buffers s1 @ [(mark_timestamp, deltas t)],
                        deleted_vertices := my_deleted_vertices @ deleted_vertices s1,
                        deleted_edges := my_deleted_edges @ deleted_edges s1,
                        commit_log := MarkFinished (start_timestamp t) (commit_log s1)\<rparr>
             in (Inr (), s2, acc\<lparr>transaction := t\<lparr>deltas := []\<rparr>, is_transaction_active := False\<rparr>))"

section \<open>Validating unique constraints at commit\<close>

text \<open>\<^verbatim>\<open>FindPropertyPosition\<close>: the lower bound of the property in the sorted array, when
  the property is there.\<close>

definition FindPropertyPosition :: "PropertyId list \<Rightarrow> PropertyId \<Rightarrow> nat option" where
  "FindPropertyPosition property_array property =
     (let i = length (takeWhile (\<lambda>p. p < property) property_array)
      in if i = length property_array \<or> property_array ! i \<noteq> property then None else Some i)"

text \<open>The switch of \<^verbatim>\<open>LastCommittedVersionHasLabelProperty\<close> (lines 225-263) on the
  flags \<open>deleted\<close>, \<open>has_label\<close> and the array \<open>current_value_equal_to_value\<close>; \<open>None\<close> is a
  failed assertion. An \<open>ADD_LABEL\<close> or \<open>REMOVE_LABEL\<close> of another label falls through to
  the final \<^verbatim>\<open>break\<close>.\<close>

fun lcv_action ::
  "LabelId \<Rightarrow> PropertyId list \<Rightarrow> PropertyValue list \<Rightarrow> Action \<Rightarrow> bool \<times> bool \<times> bool list
    \<Rightarrow> (bool \<times> bool \<times> bool list) option" where
  "lcv_action label props vals (SET_PROPERTY k x) (del, has_label, cur) =
     (case FindPropertyPosition props k of
        Some pos \<Rightarrow> Some (del, has_label, cur[pos := (x = vals ! pos)])
      | None \<Rightarrow> Some (del, has_label, cur))"
| "lcv_action label props vals DELETE_DESERIALIZED_OBJECT (del, has_label, cur) =
     (if del then None else Some (True, has_label, cur))"
| "lcv_action label props vals DELETE_OBJECT (del, has_label, cur) =
     (if del then None else Some (True, has_label, cur))"
| "lcv_action label props vals RECREATE_OBJECT (del, has_label, cur) =
     (if \<not> del then None else Some (False, has_label, cur))"
| "lcv_action label props vals (ADD_LABEL l) (del, has_label, cur) =
     (if l = label then (if has_label then None else Some (del, True, cur))
      else Some (del, has_label, cur))"
| "lcv_action label props vals (REMOVE_LABEL l) (del, has_label, cur) =
     (if l = label then (if \<not> has_label then None else Some (del, False, cur))
      else Some (del, has_label, cur))"
| "lcv_action label props vals _ st = Some st"

fun lcv_loop ::
  "(Delta \<Rightarrow> nat) \<Rightarrow> LabelId \<Rightarrow> PropertyId list \<Rightarrow> PropertyValue list \<Rightarrow> nat \<Rightarrow> nat \<Rightarrow> Delta list
    \<Rightarrow> bool \<times> bool \<times> bool list \<Rightarrow> (bool \<times> bool \<times> bool list) option" where
  "lcv_loop ts label props vals tid commit_ts [] st = Some st"
| "lcv_loop ts label props vals tid commit_ts (d # ds) st =
     (if ts d < commit_ts \<or> ts d = tid then Some st
      else case lcv_action label props vals (action d) st of
             None \<Rightarrow> None
           | Some st' \<Rightarrow> lcv_loop ts label props vals tid commit_ts ds st')"

definition LastCommittedVersionHasLabelProperty ::
  "Storage \<Rightarrow> Vertex \<Rightarrow> LabelId \<Rightarrow> PropertyId list \<Rightarrow> PropertyValue list \<Rightarrow> Transaction \<Rightarrow> nat
    \<Rightarrow> bool option" where
  "LastCommittedVersionHasLabelProperty s vertex label props value_array t commit_ts =
     (if length props \<noteq> length value_array then None
      else
        case lcv_loop (load_timestamp s) label props value_array (transaction_id t) commit_ts
               (delta vertex)
               (deleted vertex, label \<in> set (labels vertex),
                map (\<lambda>i. IsPropertyEqual (properties vertex) (props ! i) (value_array ! i))
                  [0 ..< length props]) of
          None \<Rightarrow> None
        | Some (del, has_label, cur) \<Rightarrow>
            if \<not> list_all (\<lambda>b. b) cur then Some False else Some (\<not> del \<and> has_label))"

text \<open>The storage of a registered constraint: the value of the key in \<open>constraints\<close>.\<close>

definition constraint_storage :: "Storage \<Rightarrow> LabelId \<times> PropertyId list \<Rightarrow> Entry list" where
  "constraint_storage s k = (case map_of (constraints s) k of None \<Rightarrow> [] | Some es \<Rightarrow> es)"

text \<open>The keys of \<^verbatim>\<open>constraints_by_label_.at(label)\<close>, in their order.\<close>

definition constraints_of_label :: "Storage \<Rightarrow> LabelId \<Rightarrow> PropertyId list list" where
  "constraints_of_label s label = map snd (filter (\<lambda>k. fst k = label) (constraints_by_label s))"

text \<open>\<^verbatim>\<open>UpdateBeforeCommit\<close> (lines 410-427).\<close>

definition update_constraint :: "Vertex \<Rightarrow> Transaction \<Rightarrow> LabelId \<Rightarrow> PropertyId list \<Rightarrow> Storage \<Rightarrow> Storage" where
  "update_constraint vertex t label props s =
     (case ExtractPropertyValues (properties vertex) props of
        None \<Rightarrow> s
      | Some vals \<Rightarrow>
          s\<lparr>constraints := map_set (label, props)
               (skiplist_insert (vals, gid vertex, start_timestamp t)
                  (constraint_storage s (label, props))) (constraints s)\<rparr>)"

definition UpdateBeforeCommit :: "Vertex \<Rightarrow> Transaction \<Rightarrow> Storage \<Rightarrow> Storage" where
  "UpdateBeforeCommit vertex t s =
     fold (\<lambda>label s'. fold (update_constraint vertex t label) (constraints_of_label s' label) s')
       (labels vertex) s"

text \<open>The loop of \<^verbatim>\<open>Validate\<close> over the entries from the first one that is equal or
  greater (lines 534-547): \<open>Some True\<close> when an entry of another vertex violates the
  constraint, \<open>None\<close> for a failed assertion. \<open>me\<close> is the pointer to the validated vertex.\<close>

fun validate_entries ::
  "Storage \<Rightarrow> Gid \<Rightarrow> LabelId \<Rightarrow> PropertyId list \<Rightarrow> PropertyValue list \<Rightarrow> Transaction \<Rightarrow> nat
    \<Rightarrow> Entry list \<Rightarrow> bool option" where
  "validate_entries s me label props value_array t commit_ts [] = Some False"
| "validate_entries s me label props value_array t commit_ts (e # es) =
     (if value_array < fst e then Some False
      else if me \<noteq> fst (snd e) then
        (case vertices s (fst (snd e)) of
           None \<Rightarrow> None
         | Some other \<Rightarrow>
             (case LastCommittedVersionHasLabelProperty s other label props value_array t commit_ts of
                None \<Rightarrow> None
              | Some True \<Rightarrow> Some True
              | Some False \<Rightarrow> validate_entries s me label props value_array t commit_ts es))
      else validate_entries s me label props value_array t commit_ts es)"

text \<open>The loop over the constraints of one label (lines 525-548).\<close>

fun validate_constraints ::
  "Storage \<Rightarrow> Gid \<Rightarrow> Vertex \<Rightarrow> Transaction \<Rightarrow> nat \<Rightarrow> LabelId \<Rightarrow> PropertyId list list
    \<Rightarrow> ConstraintViolation option option" where
  "validate_constraints s me vertex t commit_ts label [] = Some None"
| "validate_constraints s me vertex t commit_ts label (props # rest) =
     (case ExtractPropertyValues (properties vertex) props of
        None \<Rightarrow> validate_constraints s me vertex t commit_ts label rest
      | Some value_array \<Rightarrow>
          (case validate_entries s me label props value_array t commit_ts
                  (find_equal_or_greater value_array (constraint_storage s (label, props))) of
             None \<Rightarrow> None
           | Some True \<Rightarrow> Some (Some (UNIQUE, label, props))
           | Some False \<Rightarrow> validate_constraints s me vertex t commit_ts label rest))"

text \<open>The loop over the labels of the vertex (lines 520-549).\<close>

fun validate_labels ::
  "Storage \<Rightarrow> Gid \<Rightarrow> Vertex \<Rightarrow> Transaction \<Rightarrow> nat \<Rightarrow> LabelId list
    \<Rightarrow> ConstraintViolation option option" where
  "validate_labels s me vertex t commit_ts [] = Some None"
| "validate_labels s me vertex t commit_ts (label # rest) =
     (case validate_constraints s me vertex t commit_ts label (constraints_of_label s label) of
        None \<Rightarrow> None
      | Some (Some violation) \<Rightarrow> Some (Some violation)
      | Some None \<Rightarrow> validate_labels s me vertex t commit_ts rest)"

text \<open>\<^verbatim>\<open>InMemoryUniqueConstraints::Validate\<close> (lines 515-552) of the vertex that the pointer
  \<open>me\<close> points to: \<open>Some None\<close> is \<^verbatim>\<open>std::nullopt\<close>, \<open>None\<close> a failed assertion.\<close>

definition Validate ::
  "Storage \<Rightarrow> Gid \<Rightarrow> Vertex \<Rightarrow> Transaction \<Rightarrow> nat \<Rightarrow> ConstraintViolation option option" where
  "Validate s me vertex t commit_ts =
     (if deleted vertex then Some None
      else validate_labels s me vertex t commit_ts (labels vertex))"










section \<open>Existence constraints\<close>

text \<open>
  Modelled from the spec: \<^verbatim>\<open>ExistenceConstraints::Validate\<close>, which is not among the
  sources. "For each vertex modified by the transaction, if it carries \<open>label\<close> it must
  carry \<open>property\<close>": the first constraint the vertex breaks is the violation.
\<close>

definition ExistenceConstraints_Validate ::
  "(LabelId \<times> PropertyId) list \<Rightarrow> Vertex \<Rightarrow> ConstraintViolation option" where
  "ExistenceConstraints_Validate cs vertex =
     (case filter (\<lambda>c. fst c \<in> set (labels vertex) \<and> properties vertex (snd c) = Null) cs of
        [] \<Rightarrow> None
      | c # _ \<Rightarrow> Some (EXISTENCE, fst c, [snd c]))"

section \<open>Writing a transaction to the write-ahead log\<close>

text \<open>The value of the timestamp cell of a transaction.\<close>

definition load_cell :: "Storage \<Rightarrow> nat \<Rightarrow> nat" where
  "load_cell s tid = (case commit_timestamps s tid of None \<Rightarrow> tid | Some c \<Rightarrow> c)"

text \<open>
  The lambda \<^verbatim>\<open>find_and_apply_deltas\<close> (lines 2148-2163), called with the head \<open>d\<close> of
  the chain of its parent: it follows \<open>next\<close> while the older delta carries the current
  timestamp of the transaction, and then walks back over \<open>prev\<close> up to the head, passing on
  the deltas that the filter accepts. \<open>older\<close> is the chain after \<open>d\<close>.
\<close>

definition find_and_apply_deltas ::
  "Storage \<Rightarrow> nat \<Rightarrow> Delta \<Rightarrow> Delta list \<Rightarrow> (Action \<Rightarrow> bool) \<Rightarrow> Delta list" where
  "find_and_apply_deltas s current_commit_timestamp d older flt =
     filter (\<lambda>x. flt (action x))
       (rev (d # takeWhile (\<lambda>y. load_timestamp s y = current_commit_timestamp) older))"

text \<open>One of the five loops over the buffer (lines 2180-2289): \<open>on_vertices\<close> tells whether
  it handles the heads of vertex chains or of edge chains; \<open>None\<close> is the failed assertion on
  a null back pointer.\<close>

fun wal_pass ::
  "Storage \<Rightarrow> nat \<Rightarrow> nat \<Rightarrow> bool \<Rightarrow> (Action \<Rightarrow> bool) \<Rightarrow> Delta list \<Rightarrow> WalRecord list option" where
  "wal_pass s cur final on_vertices flt [] = Some []"
| "wal_pass s cur final on_vertices flt (d # ds) =
     (case prev_Get s d of
        PtrNull \<Rightarrow> None
      | PtrDelta _ \<Rightarrow> wal_pass s cur final on_vertices flt ds
      | PtrVertex g \<Rightarrow>
          if on_vertices
          then map_option
                 (\<lambda>rs. map (\<lambda>x. WalDelta x (OwnerVertex g) final)
                          (find_and_apply_deltas s cur d (tl (vertex_delta s g)) flt) @ rs)
                 (wal_pass s cur final on_vertices flt ds)
          else wal_pass s cur final on_vertices flt ds
      | PtrEdge g \<Rightarrow>
          if \<not> on_vertices
          then map_option
                 (\<lambda>rs. map (\<lambda>x. WalDelta x (OwnerEdge g) final)
                          (find_and_apply_deltas s cur d
                             (tl (case edges s g of None \<Rightarrow> [] | Some e \<Rightarrow> e_delta e)) flt) @ rs)
                 (wal_pass s cur final on_vertices flt ds)
          else wal_pass s cur final on_vertices flt ds)"

text \<open>The filters of the five passes.\<close>

fun creates_or_modifies_vertex :: "Action \<Rightarrow> bool" where
  "creates_or_modifies_vertex DELETE_DESERIALIZED_OBJECT = True"
| "creates_or_modifies_vertex DELETE_OBJECT = True"
| "creates_or_modifies_vertex (SET_PROPERTY _ _) = True"
| "creates_or_modifies_vertex (ADD_LABEL _) = True"
| "creates_or_modifies_vertex (REMOVE_LABEL _) = True"
| "creates_or_modifies_vertex _ = False"

fun creates_edge :: "Action \<Rightarrow> bool" where
  "creates_edge (REMOVE_OUT_EDGE _ _ _) = True"
| "creates_edge _ = False"

fun modifies_edge :: "Action \<Rightarrow> bool" where
  "modifies_edge (SET_PROPERTY _ _) = True"
| "modifies_edge _ = False"

fun deletes_edge :: "Action \<Rightarrow> bool" where
  "deletes_edge (ADD_OUT_EDGE _ _ _) = True"
| "deletes_edge _ = False"

fun deletes_vertex :: "Action \<Rightarrow> bool" where
  "deletes_vertex RECREATE_OBJECT = True"
| "deletes_vertex _ = False"

text \<open>
  \<^verbatim>\<open>InMemoryStorage::AppendToWalDataManipulation\<close> (lines 2135-2303). The log is the
  sequence of the records appended to the WAL files; syncing and rotating the file
  (\<^verbatim>\<open>FinalizeWalFile\<close>) do not change it. \<open>replicas_confirm\<close> is the answer of
  \<^verbatim>\<open>replication_state_.FinalizeTransaction\<close>.
\<close>

definition wal_group :: "Storage \<Rightarrow> Transaction \<Rightarrow> nat \<Rightarrow> WalRecord list option" where
  "wal_group s t final =
     (let cur = load_cell s (transaction_id t)
      in case wal_pass s cur final True creates_or_modifies_vertex (deltas t) of None \<Rightarrow> None
         | Some p1 \<Rightarrow>
        (case wal_pass s cur final True creates_edge (deltas t) of None \<Rightarrow> None
         | Some p2 \<Rightarrow>
        (case wal_pass s cur final False modifies_edge (deltas t) of None \<Rightarrow> None
         | Some p3 \<Rightarrow>
        (case wal_pass s cur final True deletes_edge (deltas t) of None \<Rightarrow> None
         | Some p4 \<Rightarrow>
        (case wal_pass s cur final True deletes_vertex (deltas t) of None \<Rightarrow> None
         | Some p5 \<Rightarrow> Some (p1 @ p2 @ p3 @ p4 @ p5 @ [WalTransactionEnd final]))))))"

definition AppendToWalDataManipulation ::
  "Transaction \<Rightarrow> nat \<Rightarrow> Storage \<Rightarrow> (bool \<times> Storage) option" where
  "AppendToWalDataManipulation t final_commit_timestamp s =
     (if \<not> wal_enabled s then Some (True, s)
      else case wal_group s t final_commit_timestamp of
             None \<Rightarrow> None
           | Some rs \<Rightarrow> Some (replicas_confirm s, s\<lparr>wal_file := wal_file s @ rs\<rparr>))"

text \<open>The kind of record written for a delta of a vertex or of an edge, as the comments
  of the five passes name the operations (a delta is the inverse of its operation), and the
  place of each kind in the order of C4.\<close>

datatype WalDeltaType =
    VERTEX_CREATE | VERTEX_DELETE | VERTEX_ADD_LABEL | VERTEX_REMOVE_LABEL | VERTEX_SET_PROPERTY
  | EDGE_CREATE | EDGE_DELETE | EDGE_SET_PROPERTY | TRANSACTION_END

fun vertex_record_type :: "Action \<Rightarrow> WalDeltaType option" where
  "vertex_record_type DELETE_DESERIALIZED_OBJECT = Some VERTEX_CREATE"
| "vertex_record_type DELETE_OBJECT = Some VERTEX_CREATE"
| "vertex_record_type RECREATE_OBJECT = Some VERTEX_DELETE"
| "vertex_record_type (SET_PROPERTY _ _) = Some VERTEX_SET_PROPERTY"
| "vertex_record_type (ADD_LABEL _) = Some VERTEX_REMOVE_LABEL"
| "vertex_record_type (REMOVE_LABEL _) = Some VERTEX_ADD_LABEL"
| "vertex_record_type (REMOVE_OUT_EDGE _ _ _) = Some EDGE_CREATE"
| "vertex_record_type (ADD_OUT_EDGE _ _ _) = Some EDGE_DELETE"
| "vertex_record_type _ = None"

fun record_type :: "WalRecord \<Rightarrow> WalDeltaType option" where
  "record_type (WalTransactionEnd _) = Some TRANSACTION_END"
| "record_type (WalDelta d (OwnerVertex _) _) = vertex_record_type (action d)"
| "record_type (WalDelta d (OwnerEdge _) _) =
     (if modifies_edge (action d) then Some EDGE_SET_PROPERTY else None)"

fun claimed_rank :: "WalDeltaType \<Rightarrow> nat" where
  "claimed_rank VERTEX_CREATE = 0"
| "claimed_rank VERTEX_SET_PROPERTY = 1"
| "claimed_rank VERTEX_ADD_LABEL = 1"
| "claimed_rank VERTEX_REMOVE_LABEL = 1"
| "claimed_rank EDGE_CREATE = 2"
| "claimed_rank EDGE_SET_PROPERTY = 3"
| "claimed_rank EDGE_DELETE = 4"
| "claimed_rank VERTEX_DELETE = 5"
| "claimed_rank TRANSACTION_END = 6"

text \<open>The order of the passes: creations and modifications of vertices come together.\<close>

fun pass_rank :: "WalDeltaType \<Rightarrow> nat" where
  "pass_rank VERTEX_CREATE = 1"
| "pass_rank VERTEX_SET_PROPERTY = 1"
| "pass_rank VERTEX_ADD_LABEL = 1"
| "pass_rank VERTEX_REMOVE_LABEL = 1"
| "pass_rank EDGE_CREATE = 2"
| "pass_rank EDGE_SET_PROPERTY = 3"
| "pass_rank EDGE_DELETE = 4"
| "pass_rank VERTEX_DELETE = 5"
| "pass_rank TRANSACTION_END = 6"

definition rank :: "WalRecord \<Rightarrow> nat" where
  "rank r = (case record_type r of None \<Rightarrow> 0 | Some k \<Rightarrow> pass_rank k)"

section \<open>Commit\<close>

datatype StorageDataManipulationError =
  ConstraintViolationError ConstraintViolation | ReplicationError

text \<open>The three loops of \<^verbatim>\<open>Commit\<close> over the buffer, each on the deltas whose back pointer
  is a vertex: existence constraints (lines 1248-1261), \<^verbatim>\<open>UpdateBeforeCommit\<close> (lines
  1280-1287) and unique constraints (lines 1291-1304). \<open>None\<close> is a failed assertion.\<close>

fun existence_loop :: "Storage \<Rightarrow> Delta list \<Rightarrow> ConstraintViolation option option" where
  "existence_loop s [] = Some None"
| "existence_loop s (d # ds) =
     (case prev_Get s d of
        PtrNull \<Rightarrow> None
      | PtrVertex g \<Rightarrow>
          (case vertices s g of
             None \<Rightarrow> None
           | Some v \<Rightarrow>
               (case ExistenceConstraints_Validate (existence_constraints s) v of
                  Some violation \<Rightarrow> Some (Some violation)
                | None \<Rightarrow> existence_loop s ds))
      | _ \<Rightarrow> existence_loop s ds)"

fun update_loop :: "Transaction \<Rightarrow> Delta list \<Rightarrow> Storage \<Rightarrow> Storage option" where
  "update_loop t [] s = Some s"
| "update_loop t (d # ds) s =
     (case prev_Get s d of
        PtrNull \<Rightarrow> None
      | PtrVertex g \<Rightarrow>
          (case vertices s g of
             None \<Rightarrow> None
           | Some v \<Rightarrow> update_loop t ds (UpdateBeforeCommit v t s))
      | _ \<Rightarrow> update_loop t ds s)"

fun unique_loop :: "Storage \<Rightarrow> Transaction \<Rightarrow> nat \<Rightarrow> Delta list \<Rightarrow> ConstraintViolation option option" where
  "unique_loop s t commit_ts [] = Some None"
| "unique_loop s t commit_ts (d # ds) =
     (case prev_Get s d of
        PtrNull \<Rightarrow> None
      | PtrVertex g \<Rightarrow>
          (case vertices s g of
             None \<Rightarrow> None
           | Some v \<Rightarrow>
               (case Validate s g v t commit_ts of
                  None \<Rightarrow> None
                | Some (Some violation) \<Rightarrow> Some (Some violation)
                | Some None \<Rightarrow> unique_loop s t commit_ts ds))
      | _ \<Rightarrow> unique_loop s t commit_ts ds)"

text \<open>\<^verbatim>\<open>Abort()\<close> followed by the return of the violation.\<close>

definition abort_with ::
  "ConstraintViolation \<Rightarrow> Storage \<times> Accessor
    \<Rightarrow> (StorageDataManipulationError + unit) Result \<times> Storage \<times> Accessor" where
  "abort_with violation sa =
     (case Abort sa of
        (Inl f, sa') \<Rightarrow> (Inl f, sa')
      | (Inr _, sa') \<Rightarrow> (Inr (Inl (ConstraintViolationError violation)), sa'))"

text \<open>\<^verbatim>\<open>InMemoryAccessor::Commit\<close> (lines 1232-1359); the result is \<open>Inr (Inr ())\<close> for
  success and \<open>Inr (Inl e)\<close> for the error \<open>e\<close>.\<close>

definition Commit ::
  "64 word option \<Rightarrow> Storage \<times> Accessor
    \<Rightarrow> (StorageDataManipulationError + unit) Result \<times> Storage \<times> Accessor" where
  "Commit desired_commit_timestamp sa =
     (let s = fst sa; acc = snd sa; t = transaction acc
      in if \<not> is_transaction_active acc then (Inl Fatal, sa)
         else if must_abort t then (Inl Fatal, sa)
         else if deltas t = []
           then (Inr (Inr ()),
                 s\<lparr>commit_log := MarkFinished (start_timestamp t) (commit_log s)\<rparr>,
                 acc\<lparr>is_transaction_active := False\<rparr>)
         else case existence_loop s (deltas t) of
           None \<Rightarrow> (Inl Fatal, sa)
         | Some (Some violation) \<Rightarrow> abort_with violation sa
         | Some None \<Rightarrow>
             let (commit_ts, s1) = CommitTimestamp desired_commit_timestamp s;
                 acc1 = acc\<lparr>commit_timestamp := Some commit_ts\<rparr>
             in case update_loop t (deltas t) s1 of
                  None \<Rightarrow> (Inl Fatal, s1, acc1)
                | Some s2 \<Rightarrow>
                    (case unique_loop s2 t commit_ts (deltas t) of
                       None \<Rightarrow> (Inl Fatal, s2, acc1)
                     | Some (Some violation) \<Rightarrow> abort_with violation (s2, acc1)
                     | Some None \<Rightarrow>
                         (case (if replication_role s2 = MAIN \<or> desired_commit_timestamp \<noteq> None
                                then AppendToWalDataManipulation t commit_ts s2
                                else Some (True, s2)) of
                            None \<Rightarrow> (Inl Fatal, s2, acc1)
                          | Some (could_replicate_all_sync_replicas, s3) \<Rightarrow>
                              let s4 = s3\<lparr>commit_timestamps :=
                                            (commit_timestamps s3)(transaction_id t \<mapsto> commit_ts),
                                          commit_log :=
                                            MarkFinished (start_timestamp t) (commit_log s3)\<rparr>
                              in (if could_replicate_all_sync_replicas then Inr (Inr ())
                                  else Inr (Inl ReplicationError),
                                  s4, acc1\<lparr>is_transaction_active := False\<rparr>))))"

definition FinalizeTransaction :: "Storage \<times> Accessor \<Rightarrow> Storage \<times> Accessor" where
  "FinalizeTransaction sa =
     (case commit_timestamp (snd sa) of
        None \<Rightarrow> sa
      | Some c \<Rightarrow>
          ((fst sa)\<lparr>commit_log := MarkFinished c (commit_log (fst sa)),
                    committed_transactions :=
                      committed_transactions (fst sa) @ [transaction (snd sa)]\<rparr>,
           (snd sa)\<lparr>commit_timestamp := None\<rparr>))"

section \<open>Garbage collection\<close>






text \<open>Removing objects from a skip list, each removal asserted (lines 2040-2061).\<close>

fun remove_all :: "Gid list \<Rightarrow> (Gid \<Rightarrow> 'a option) \<Rightarrow> (Gid \<Rightarrow> 'a option) option" where
  "remove_all [] m = Some m"
| "remove_all (g # gs) m = (if m g = None then None else remove_all gs (m(g := None)))"






section \<open>What a delta undoes\<close>












section \<open>Example states\<close>

text \<open>A storage without properties on edges holding the vertices 0, 1 and 2 and the edge 0
  of type 7 from vertex 0 to vertex 1, all version chains collected, and a transaction that
  has written nothing yet. Transaction ids lie above every timestamp.\<close>

definition plain_vertex :: "Gid \<Rightarrow> Link list \<Rightarrow> Link list \<Rightarrow> Vertex" where
  "plain_vertex g ins outs =
     \<lparr>gid = g, labels = [], properties = (\<lambda>_. Null), in_edges = ins, out_edges = outs,
      deleted = False, delta = []\<rparr>"

definition ex_storage :: Storage where
  "ex_storage =
     \<lparr>vertices = [0 \<mapsto> plain_vertex 0 [] [(7, 1, EdgeRefGid 0)],
                  1 \<mapsto> plain_vertex 1 [(7, 0, EdgeRefGid 0)] [],
                  2 \<mapsto> plain_vertex 2 [] []],
      edges = Map.empty, vertex_id = 3, edge_id = 1, edge_count = 1,
      storage_timestamp = 5, storage_transaction_id = 1001,
      commit_timestamps = Map.empty, commit_log = [0, 1, 2, 3],
      committed_transactions = [], garbage_undo_buffers = [],
      deleted_vertices = [], deleted_edges = [], garbage_vertices = [],
      constraints = [], constraints_by_label = [], existence_constraints = [],
      wal_enabled = True, wal_file = [], replication_role = MAIN, replicas_confirm = True\<rparr>"

definition ex_transaction :: Transaction where
  "ex_transaction = \<lparr>transaction_id = 1000, start_timestamp = 4, deltas = [], must_abort = False\<rparr>"

definition ex_accessor :: Accessor where
  "ex_accessor =
     \<lparr>transaction = ex_transaction, is_transaction_active = True, commit_timestamp = None,
      properties_on_edges = False\<rparr>"

definition ex_edge :: EdgeAccessor where
  "ex_edge =
     \<lparr>ea_edge = EdgeRefGid 0, ea_edge_type = 7, ea_from_vertex = 0, ea_to_vertex = 1,
      ea_transaction = 1000\<rparr>"

definition ex_va :: "Gid \<Rightarrow> VertexAccessor" where
  "ex_va g = \<lparr>va_vertex = g, va_transaction = 1000\<rparr>"


text \<open>The same graph in a storage with properties on edges. Edge 0 carries property 1,
  set by transaction 999, which is still active; edge 1 (from vertex 2 to vertex 2) was
  deleted by transaction 900, committed at timestamp 3.\<close>

definition ex_edge_object :: Edge where
  "ex_edge_object =
     \<lparr>e_gid = 0, e_properties = (\<lambda>_. Null)(1 := PInt 3), e_deleted = False,
      e_delta = [\<lparr>did = 0, timestamp = 999, action = SET_PROPERTY 1 Null, owner = OwnerEdge 0\<rparr>]\<rparr>"

definition ex_deleted_edge :: Edge where
  "ex_deleted_edge =
     \<lparr>e_gid = 1, e_properties = (\<lambda>_. Null), e_deleted = True,
      e_delta = [\<lparr>did = 2, timestamp = 900, action = RECREATE_OBJECT, owner = OwnerEdge 1\<rparr>]\<rparr>"

definition ex_storage_poe :: Storage where
  "ex_storage_poe =
     ex_storage\<lparr>vertices := [0 \<mapsto> plain_vertex 0 [] [(7, 1, EdgeRefPtr 0)],
                              1 \<mapsto> plain_vertex 1 [(7, 0, EdgeRefPtr 0)] [],
                              2 \<mapsto> plain_vertex 2 [] []],
                 edges := [0 \<mapsto> ex_edge_object, 1 \<mapsto> ex_deleted_edge],
                 edge_id := 2,
                 commit_timestamps := [900 \<mapsto> 3]\<rparr>"

definition ex_edge_poe :: "Gid \<Rightarrow> EdgeAccessor" where
  "ex_edge_poe g =
     \<lparr>ea_edge = EdgeRefPtr g, ea_edge_type = 7, ea_from_vertex = (if g = 0 then 0 else 2),
      ea_to_vertex = (if g = 0 then 1 else 2), ea_transaction = 1000\<rparr>"

text \<open>The storage \<open>ex_storage\<close> when transaction 999, which is still active, has set
  property 1 of vertex 2.\<close>

definition ex_held_vertex :: Vertex where
  "ex_held_vertex =
     (plain_vertex 2 [] [])\<lparr>properties := (\<lambda>_. Null)(1 := PInt 3),
        delta := [\<lparr>did = 0, timestamp = 999, action = SET_PROPERTY 1 Null, owner = OwnerVertex 2\<rparr>]\<rparr>"

definition ex_storage_held :: Storage where
  "ex_storage_held = ex_storage\<lparr>vertices := (vertices ex_storage)(2 \<mapsto> ex_held_vertex)\<rparr>"

text \<open>Two vertices with label 5 and the same value of property 1, and a storage in which
  the unique constraint on label 5 and property 1 is registered.\<close>

definition labelled_vertex :: "Gid \<Rightarrow> LabelId list \<Rightarrow> (PropertyId \<Rightarrow> PropertyValue) \<Rightarrow> Vertex" where
  "labelled_vertex g ls ps = (plain_vertex g [] [])\<lparr>labels := ls, properties := ps\<rparr>"

definition ex_duplicates :: "Vertex list" where
  "ex_duplicates =
     [labelled_vertex 0 [5] ((\<lambda>_. Null)(1 := PInt 9)),
      labelled_vertex 1 [5] ((\<lambda>_. Null)(1 := PInt 9))]"

definition ex_storage_constrained :: Storage where
  "ex_storage_constrained =
     ex_storage\<lparr>constraints := [((5, [1]), [])], constraints_by_label := [(5, [1])]\<rparr>"

text \<open>Transaction 1000 after it created vertex 3, set property 1 of vertex 3 and created
  vertex 4.\<close>

definition ex_wal_deltas :: "Delta list" where
  "ex_wal_deltas =
     [\<lparr>did = 0, timestamp = 1000, action = DELETE_OBJECT, owner = OwnerVertex 3\<rparr>,
      \<lparr>did = 1, timestamp = 1000, action = SET_PROPERTY 1 Null, owner = OwnerVertex 3\<rparr>,
      \<lparr>did = 2, timestamp = 1000, action = DELETE_OBJECT, owner = OwnerVertex 4\<rparr>]"

definition ex_wal_storage :: Storage where
  "ex_wal_storage =
     ex_storage\<lparr>vertices := (vertices ex_storage)
        (3 \<mapsto> (plain_vertex 3 [] [])\<lparr>properties := (\<lambda>_. Null)(1 := PInt 7),
                                          delta := [ex_wal_deltas ! 1, ex_wal_deltas ! 0]\<rparr>,
         4 \<mapsto> (plain_vertex 4 [] [])\<lparr>delta := [ex_wal_deltas ! 2]\<rparr>),
        vertex_id := 5\<rparr>"

definition ex_wal_transaction :: Transaction where
  "ex_wal_transaction = ex_transaction\<lparr>deltas := ex_wal_deltas\<rparr>"










section \<open>Lists\<close>

lemma find_index_Some: "find_index x xs = Some i \<Longrightarrow> i < length xs \<and> xs ! i = x"
proof (induction xs arbitrary: i)
  case Nil
  then show ?case by simp
next
  case (Cons y ys)
  then show ?case by (auto split: if_splits)
qed

lemma find_index_None: "find_index x xs = None \<longleftrightarrow> x \<notin> set xs"
  by (induction xs) auto

lemma mset_swap_pop: "i < length xs \<Longrightarrow> mset (swap_pop i xs) = mset xs - {# xs ! i #}"
proof -
  assume i: "i < length xs"
  then have ne: "xs \<noteq> []" by auto
  define ys where "ys = xs[i := last xs]"
  have ne': "ys \<noteq> []" using ne by (simp add: ys_def)
  have l: "last ys = last xs"
    using i ne by (simp add: ys_def last_list_update)
  have "mset ys = mset xs - {# xs ! i #} + {# last xs #}"
    using i by (simp add: ys_def mset_update)
  moreover have "mset ys = mset (butlast ys) + {# last ys #}"
    using ne' by (metis append_butlast_last_id mset_append mset_single_iff_right
        mset.simps add_mset_add_single)
  ultimately show ?thesis using l by (simp add: swap_pop_def ys_def)
qed


lemma find_index_mem: "x \<in> set xs \<Longrightarrow> \<exists>i. find_index x xs = Some i"
  by (cases "find_index x xs") (simp_all add: find_index_None)

lemma filter_swap_pop_only:
  assumes i: "i < length xs" and f: "filter P xs = [xs ! i]"
  shows "filter P (swap_pop i xs) = []"
proof -
  have p: "P (xs ! i)" using f by (metis filter_eq_ConsD)
  have "mset (filter P (swap_pop i xs)) = filter_mset P (mset xs - {# xs ! i #})"
    using i by (simp add: mset_swap_pop)
  also have "\<dots> = filter_mset P (mset xs) - filter_mset P {# xs ! i #}"
    by (simp only: filter_diff_mset)
  also have "filter_mset P (mset xs) = mset (filter P xs)" by simp
  also have "mset (filter P xs) - filter_mset P {# xs ! i #} = {#}"
    using p f by simp
  finally show ?thesis by simp
qed

section \<open>Facts about the write operations\<close>

lemma vertices_upd_vertex [simp]:
  "vertices (upd_vertex g f s) g' = (if g' = g then map_option f (vertices s g) else vertices s g')"
  by (simp add: upd_vertex_def)

lemma set_lock_order: "set (lock_order s ps) = set ps"
  by (simp add: lock_order_def)

lemma lock_order_ok: "\<not> list_ex (\<lambda>p. p \<noteq> A \<and> p \<noteq> B \<and> p \<noteq> C) (lock_order s [A, B, C])"
  unfolding list_ex_iff set_lock_order by auto

lemma deref_edge_Some: "deref_edge s r = Some (g, e) \<Longrightarrow> r = EdgeRefPtr g \<and> edges s g = Some e"
  by (auto simp: deref_edge_def split: EdgeRef.splits)

lemma prepare_vertex_None:
  "vertices s g = Some v \<Longrightarrow> PrepareForWrite s t (delta v) \<Longrightarrow> \<not> deleted v
     \<Longrightarrow> prepare_vertex s t g = None"
  by (simp add: prepare_vertex_def)

lemma SetProperty_writes:
  assumes d: "deref_edge s (ea_edge ea) = Some (g, e)" and "PrepareForWrite s t (e_delta e)"
    and "\<not> e_deleted e"
  shows "EdgeAccessor_SetProperty ea property val (s, t) =
           (Inr (e_properties e property = Null),
            s\<lparr>edges := (edges s)(g \<mapsto> e\<lparr>e_delta :=
                 new_delta t (OwnerEdge g) (SET_PROPERTY property (e_properties e property)) # e_delta e,
                 e_properties := (e_properties e)(property := val)\<rparr>)\<rparr>,
            push_delta t (new_delta t (OwnerEdge g) (SET_PROPERTY property (e_properties e property))))"
proof -
  from d have e: "edges s g = Some e" by (simp add: deref_edge_Some)
  have n: "IsNull val \<Longrightarrow> val = Null" by (cases val) simp_all
  show ?thesis
    using assms e n
    by (auto simp: EdgeAccessor_SetProperty_def Let_def CreateAndLinkDelta_edge_def upd_edge_def
        fun_upd_idem)
qed

lemma CreateEdge_writes:
  assumes "va_transaction from_va = va_transaction to_va"
    and "va_transaction from_va = transaction_id (transaction acc)"
    and "vertices s (va_vertex from_va) = Some fv" and "vertices s (va_vertex to_va) = Some tv"
    and "PrepareForWrite s (transaction acc) (delta fv)"
    and "PrepareForWrite s (transaction acc) (delta tv)"
    and "\<not> deleted fv" and "\<not> deleted tv"
    and "properties_on_edges acc \<longrightarrow> edges s (edge_id s) = None"
    and "r = (if properties_on_edges acc then EdgeRefPtr (edge_id s) else EdgeRefGid (edge_id s))"
    and "t0 = (if properties_on_edges acc
               then push_delta (transaction acc)
                      (new_delta (transaction acc) (OwnerEdge (edge_id s)) DELETE_OBJECT)
               else transaction acc)"
    and "d_out = new_delta t0 (OwnerVertex (va_vertex from_va))
                   (REMOVE_OUT_EDGE edge_type (va_vertex to_va) r)"
    and "d_in = new_delta (push_delta t0 d_out) (OwnerVertex (va_vertex to_va))
                   (REMOVE_IN_EDGE edge_type (va_vertex from_va) r)"
  shows "case CreateEdge from_va to_va edge_type (s, acc) of (res, s', acc') \<Rightarrow>
           res = Inr \<lparr>ea_edge = r, ea_edge_type = edge_type, ea_from_vertex = va_vertex from_va,
                 ea_to_vertex = va_vertex to_va, ea_transaction = transaction_id (transaction acc)\<rparr>
         \<and> deltas (transaction acc') = deltas t0 @ [d_out, d_in]
         \<and> vertex_out_edges s' (va_vertex from_va)
             = vertex_out_edges s (va_vertex from_va) @ [(edge_type, va_vertex to_va, r)]
         \<and> vertex_in_edges s' (va_vertex to_va)
             = vertex_in_edges s (va_vertex to_va) @ [(edge_type, va_vertex from_va, r)]
         \<and> vertex_delta s' (va_vertex from_va)
             = (if va_vertex from_va = va_vertex to_va then [d_in, d_out] else [d_out]) @ delta fv
         \<and> vertex_delta s' (va_vertex to_va)
             = (if va_vertex from_va = va_vertex to_va then [d_in, d_out] else [d_in]) @ delta tv"
  using assms
  by (cases "va_vertex from_va = va_vertex to_va"; cases "properties_on_edges acc")
     (simp_all add: CreateEdge_def Let_def CreateAndLinkDelta_vertex_def CreateDeleteObjectDelta_def
        upd_vertex_def vertex_out_edges_def vertex_in_edges_def vertex_delta_def push_delta_def)

lemma relink_to:
  assumes a: "vertices s A = Some av" and b: "vertices s B = Some bv" and c: "vertices s C = Some cv"
    and bc: "B \<noteq> C"
    and i: "find_index (ty, B, e) (out_edges av) = Some i"
    and j: "find_index (ty, A, e) (in_edges bv) = Some j"
  shows "case relink_edge poe ty e A B A C (s, tx) of (r, s', tx') \<Rightarrow>
           r = Inr ()
           \<and> vertex_out_edges s' A = swap_pop i (out_edges av) @ [(ty, C, e)]
           \<and> vertex_in_edges s' B = swap_pop j (in_edges bv)
           \<and> vertex_in_edges s' C = in_edges cv @ [(ty, A, e)]
           \<and> map action (deltas tx') = map action (deltas tx) @
                [ADD_OUT_EDGE ty B e, ADD_IN_EDGE ty A e, REMOVE_OUT_EDGE ty C e, REMOVE_IN_EDGE ty A e]"
  using assms
  by (cases "A = B"; cases "A = C")
     (simp_all add: relink_edge_def delete_edge_from_storage_def Let_def vertex_out_edges_def
        vertex_in_edges_def CreateAndLinkDelta_vertex_def push_delta_def new_delta_def)

lemma EdgeSetTo_run:
  assumes tx: "ea_transaction edge = va_transaction new_to"
      "ea_transaction edge = transaction_id (transaction acc)"
    and b: "vertices s (ea_to_vertex edge) = Some bv"
    and c: "vertices s (va_vertex new_to) = Some cv"
    and gids: "gid bv \<noteq> gid cv"
    and pe: "prepare_edge (s, acc) (ea_edge edge) = None"
    and pv: "prepare_vertex s (transaction acc) (ea_from_vertex edge) = None"
      "prepare_vertex s (transaction acc) (ea_to_vertex edge) = None"
      "prepare_vertex s (transaction acc) (va_vertex new_to) = None"
    and r: "relink_edge (properties_on_edges acc) (ea_edge_type edge) (ea_edge edge)
              (ea_from_vertex edge) (ea_to_vertex edge) (ea_from_vertex edge) (va_vertex new_to)
              (s, transaction acc) = (Inr (), s', tx')"
  shows "EdgeSetTo edge new_to (s, acc)
      = (Inr (edge\<lparr>ea_to_vertex := va_vertex new_to\<rparr>), s', acc\<lparr>transaction := tx'\<rparr>)"
  using tx b c gids pe pv r lock_order_ok
  by (simp add: EdgeSetTo_def Let_def)

section \<open>Re-targeting to the current endpoint\<close>

text \<open>
  C9. \<^verbatim>\<open>EdgeSetTo\<close> with a new to-vertex of the same gid as the edge's to-vertex, and
  \<^verbatim>\<open>EdgeSetFrom\<close> with a new from-vertex of the same gid as the edge's from-vertex, return
  the edge accessor they were given and leave the storage and the accessor (so every delta
  buffer, version chain and adjacency vector) as they were. The accessors belong to the
  transaction of the storage accessor, which the two assertions at the head of the
  functions require.
\<close>

theorem retarget_same_gid_noop:
  assumes "ea_transaction edge = va_transaction va"
    and "ea_transaction edge = transaction_id (transaction (snd sa))"
    and "vertices (fst sa) (va_vertex va) = Some nv"
  shows "(\<forall>ov. vertices (fst sa) (ea_to_vertex edge) = Some ov \<and> gid ov = gid nv
            \<longrightarrow> EdgeSetTo edge va sa = (Inr edge, sa))
       \<and> (\<forall>ov. vertices (fst sa) (ea_from_vertex edge) = Some ov \<and> gid ov = gid nv
            \<longrightarrow> EdgeSetFrom edge va sa = (Inr edge, sa))"
  using assms by (simp add: EdgeSetTo_def EdgeSetFrom_def Let_def)

theorem retarget_same_gid_noop_witness:
  "EdgeSetTo ex_edge (ex_va 1) (ex_storage, ex_accessor) = (Inr ex_edge, ex_storage, ex_accessor)
   \<and> EdgeSetFrom ex_edge (ex_va 0) (ex_storage, ex_accessor) = (Inr ex_edge, ex_storage, ex_accessor)"
proof -
  have t1: "ea_transaction ex_edge = va_transaction (ex_va 1)"
    and t0: "ea_transaction ex_edge = va_transaction (ex_va 0)"
    and t2: "ea_transaction ex_edge = transaction_id (transaction (snd (ex_storage, ex_accessor)))"
    by (simp_all add: ex_edge_def ex_va_def ex_accessor_def ex_transaction_def)
  have v1: "vertices (fst (ex_storage, ex_accessor)) (va_vertex (ex_va 1))
              = Some (plain_vertex 1 [(7, 0, EdgeRefGid 0)] [])"
    and v0: "vertices (fst (ex_storage, ex_accessor)) (va_vertex (ex_va 0))
              = Some (plain_vertex 0 [] [(7, 1, EdgeRefGid 0)])"
    by (simp_all add: ex_storage_def ex_va_def)
  have e1: "vertices (fst (ex_storage, ex_accessor)) (ea_to_vertex ex_edge)
              = Some (plain_vertex 1 [(7, 0, EdgeRefGid 0)] [])"
    and e0: "vertices (fst (ex_storage, ex_accessor)) (ea_from_vertex ex_edge)
              = Some (plain_vertex 0 [] [(7, 1, EdgeRefGid 0)])"
    by (simp_all add: ex_storage_def ex_edge_def)
  from retarget_same_gid_noop [OF t1 t2 v1] e1
  have "EdgeSetTo ex_edge (ex_va 1) (ex_storage, ex_accessor) = (Inr ex_edge, ex_storage, ex_accessor)"
    by blast
  moreover from retarget_same_gid_noop [OF t0 t2 v0] e0
  have "EdgeSetFrom ex_edge (ex_va 0) (ex_storage, ex_accessor) = (Inr ex_edge, ex_storage, ex_accessor)"
    by blast
  ultimately show ?thesis by simp
qed


section \<open>Setting a property of an edge when edges carry no properties\<close>

text \<open>
  C8. In a storage without properties on edges, \<^verbatim>\<open>SetProperty\<close> of an edge accessor
  returns \<open>PROPERTIES_DISABLED\<close>, whatever the edge, the property and the value, and the
  storage and the transaction are as before: no delta is created and nothing is written.
\<close>

theorem SetProperty_PROPERTIES_DISABLED:
  assumes "\<not> poe"
  shows "EdgeAccessor_SetProperty_configured poe ea property val (s, t)
    = (Inl (Err PROPERTIES_DISABLED), s, t)"
  using assms by (simp add: EdgeAccessor_SetProperty_configured_def)

theorem SetProperty_PROPERTIES_DISABLED_witness:
  "\<not> properties_on_edges ex_accessor
   \<and> EdgeAccessor_SetProperty_configured (properties_on_edges ex_accessor) ex_edge 1 (PInt 5)
         (ex_storage, ex_transaction)
       = (Inl (Err PROPERTIES_DISABLED), ex_storage, ex_transaction)"
proof -
  have a: "\<not> properties_on_edges ex_accessor" by (simp add: ex_accessor_def)
  from SetProperty_PROPERTIES_DISABLED [OF a] a show ?thesis by simp
qed

section \<open>Write conflicts\<close>

text \<open>
  C3 as stated fails: edge 1 of \<open>ex_storage_poe\<close> has no head delta of a foreign active
  transaction (its head delta was committed), yet \<^verbatim>\<open>SetProperty\<close> does not proceed: the
  edge is deleted, the result is \<open>DELETED_OBJECT\<close>, and no delta is pushed.
\<close>

theorem write_without_conflict_refused:
  "deref_edge ex_storage_poe (ea_edge (ex_edge_poe 1)) = Some (1, ex_deleted_edge)
   \<and> PrepareForWrite ex_storage_poe ex_transaction (e_delta ex_deleted_edge)
   \<and> EdgeAccessor_SetProperty (ex_edge_poe 1) 1 (PInt 5) (ex_storage_poe, ex_transaction)
       = (Inl (Err DELETED_OBJECT), ex_storage_poe, ex_transaction)"
  by (simp add: EdgeAccessor_SetProperty_def deref_edge_def ex_edge_poe_def ex_storage_poe_def
      ex_deleted_edge_def PrepareForWrite_def)

text \<open>
  C3, amended. \<^verbatim>\<open>SetProperty\<close> on an edge: when \<^verbatim>\<open>PrepareForWrite\<close> fails on the edge
  (its head delta exists and its cell holds the id of another transaction) the result is
  \<open>SERIALIZATION_ERROR\<close>; otherwise, when the edge is deleted, \<open>DELETED_OBJECT\<close>; in both
  cases storage and transaction are unchanged. Otherwise a \<open>SET_PROPERTY\<close> delta carrying
  the previous value is pushed on the buffer and on the chain and the property is set in
  place. \<^verbatim>\<open>CreateEdge\<close> checks the from-vertex and then, when it is another vertex, the
  to-vertex, each for a failing \<^verbatim>\<open>PrepareForWrite\<close> (\<open>SERIALIZATION_ERROR\<close>) and then
  for deletion (\<open>DELETED_OBJECT\<close>), returning with storage and accessor unchanged;
  otherwise it pushes a \<open>REMOVE_OUT_EDGE\<close> delta on the from-vertex and a \<open>REMOVE_IN_EDGE\<close>
  delta on the to-vertex and appends the adjacency entries in place.
\<close>

theorem write_conflict_check:
  "(\<forall>g e. deref_edge s (ea_edge ea) = Some (g, e) \<longrightarrow>
      EdgeAccessor_SetProperty ea property val (s, t) =
        (if \<not> PrepareForWrite s t (e_delta e) then (Inl (Err SERIALIZATION_ERROR), s, t)
         else if e_deleted e then (Inl (Err DELETED_OBJECT), s, t)
         else (Inr (e_properties e property = Null),
               s\<lparr>edges := (edges s)(g \<mapsto> e\<lparr>e_delta :=
                    new_delta t (OwnerEdge g) (SET_PROPERTY property (e_properties e property))
                      # e_delta e,
                    e_properties := (e_properties e)(property := val)\<rparr>)\<rparr>,
               push_delta t (new_delta t (OwnerEdge g)
                 (SET_PROPERTY property (e_properties e property))))))
   \<and> (\<forall>fv tv. va_transaction from_va = va_transaction to_va
         \<and> va_transaction from_va = transaction_id (transaction acc)
         \<and> vertices s (va_vertex from_va) = Some fv \<and> vertices s (va_vertex to_va) = Some tv \<longrightarrow>
      (if \<not> PrepareForWrite s (transaction acc) (delta fv)
         then CreateEdge from_va to_va edge_type (s, acc) = (Inl (Err SERIALIZATION_ERROR), s, acc)
       else if deleted fv
         then CreateEdge from_va to_va edge_type (s, acc) = (Inl (Err DELETED_OBJECT), s, acc)
       else if va_vertex to_va \<noteq> va_vertex from_va \<and> \<not> PrepareForWrite s (transaction acc) (delta tv)
         then CreateEdge from_va to_va edge_type (s, acc) = (Inl (Err SERIALIZATION_ERROR), s, acc)
       else if va_vertex to_va \<noteq> va_vertex from_va \<and> deleted tv
         then CreateEdge from_va to_va edge_type (s, acc) = (Inl (Err DELETED_OBJECT), s, acc)
       else (properties_on_edges acc \<longrightarrow> edges s (edge_id s) = None) \<longrightarrow>
         (let r = (if properties_on_edges acc then EdgeRefPtr (edge_id s) else EdgeRefGid (edge_id s));
              t0 = (if properties_on_edges acc
                    then push_delta (transaction acc)
                           (new_delta (transaction acc) (OwnerEdge (edge_id s)) DELETE_OBJECT)
                    else transaction acc);
              d_out = new_delta t0 (OwnerVertex (va_vertex from_va))
                        (REMOVE_OUT_EDGE edge_type (va_vertex to_va) r);
              d_in = new_delta (push_delta t0 d_out) (OwnerVertex (va_vertex to_va))
                        (REMOVE_IN_EDGE edge_type (va_vertex from_va) r)
          in case CreateEdge from_va to_va edge_type (s, acc) of (res, s', acc') \<Rightarrow>
               res = Inr \<lparr>ea_edge = r, ea_edge_type = edge_type, ea_from_vertex = va_vertex from_va,
                          ea_to_vertex = va_vertex to_va,
                          ea_transaction = transaction_id (transaction acc)\<rparr>
             \<and> deltas (transaction acc') = deltas t0 @ [d_out, d_in]
             \<and> vertex_out_edges s' (va_vertex from_va)
                 = vertex_out_edges s (va_vertex from_va) @ [(edge_type, va_vertex to_va, r)]
             \<and> vertex_in_edges s' (va_vertex to_va)
                 = vertex_in_edges s (va_vertex to_va) @ [(edge_type, va_vertex from_va, r)]
             \<and> vertex_delta s' (va_vertex from_va)
                 = (if va_vertex from_va = va_vertex to_va then [d_in, d_out] else [d_out]) @ delta fv
             \<and> vertex_delta s' (va_vertex to_va)
                 = (if va_vertex from_va = va_vertex to_va then [d_in, d_out] else [d_in]) @ delta tv)))"
proof (intro conjI allI impI)
  fix g e
  assume d: "deref_edge s (ea_edge ea) = Some (g, e)"
  show "EdgeAccessor_SetProperty ea property val (s, t) =
        (if \<not> PrepareForWrite s t (e_delta e) then (Inl (Err SERIALIZATION_ERROR), s, t)
         else if e_deleted e then (Inl (Err DELETED_OBJECT), s, t)
         else (Inr (e_properties e property = Null),
               s\<lparr>edges := (edges s)(g \<mapsto> e\<lparr>e_delta :=
                    new_delta t (OwnerEdge g) (SET_PROPERTY property (e_properties e property))
                      # e_delta e,
                    e_properties := (e_properties e)(property := val)\<rparr>)\<rparr>,
               push_delta t (new_delta t (OwnerEdge g)
                 (SET_PROPERTY property (e_properties e property)))))"
  proof (cases "PrepareForWrite s t (e_delta e) \<and> \<not> e_deleted e")
    case True
    then show ?thesis using SetProperty_writes [OF d, of t property val] by simp
  next
    case False
    then show ?thesis using d by (auto simp: EdgeAccessor_SetProperty_def)
  qed
next
  fix fv tv
  assume h: "va_transaction from_va = va_transaction to_va
         \<and> va_transaction from_va = transaction_id (transaction acc)
         \<and> vertices s (va_vertex from_va) = Some fv \<and> vertices s (va_vertex to_va) = Some tv"
  let ?ok = "PrepareForWrite s (transaction acc) (delta fv) \<and> \<not> deleted fv
      \<and> PrepareForWrite s (transaction acc) (delta tv) \<and> \<not> deleted tv"
  show "(if \<not> PrepareForWrite s (transaction acc) (delta fv)
         then CreateEdge from_va to_va edge_type (s, acc) = (Inl (Err SERIALIZATION_ERROR), s, acc)
       else if deleted fv
         then CreateEdge from_va to_va edge_type (s, acc) = (Inl (Err DELETED_OBJECT), s, acc)
       else if va_vertex to_va \<noteq> va_vertex from_va \<and> \<not> PrepareForWrite s (transaction acc) (delta tv)
         then CreateEdge from_va to_va edge_type (s, acc) = (Inl (Err SERIALIZATION_ERROR), s, acc)
       else if va_vertex to_va \<noteq> va_vertex from_va \<and> deleted tv
         then CreateEdge from_va to_va edge_type (s, acc) = (Inl (Err DELETED_OBJECT), s, acc)
       else (properties_on_edges acc \<longrightarrow> edges s (edge_id s) = None) \<longrightarrow>
         (let r = (if properties_on_edges acc then EdgeRefPtr (edge_id s) else EdgeRefGid (edge_id s));
              t0 = (if properties_on_edges acc
                    then push_delta (transaction acc)
                           (new_delta (transaction acc) (OwnerEdge (edge_id s)) DELETE_OBJECT)
                    else transaction acc);
              d_out = new_delta t0 (OwnerVertex (va_vertex from_va))
                        (REMOVE_OUT_EDGE edge_type (va_vertex to_va) r);
              d_in = new_delta (push_delta t0 d_out) (OwnerVertex (va_vertex to_va))
                        (REMOVE_IN_EDGE edge_type (va_vertex from_va) r)
          in case CreateEdge from_va to_va edge_type (s, acc) of (res, s', acc') \<Rightarrow>
               res = Inr \<lparr>ea_edge = r, ea_edge_type = edge_type, ea_from_vertex = va_vertex from_va,
                          ea_to_vertex = va_vertex to_va,
                          ea_transaction = transaction_id (transaction acc)\<rparr>
             \<and> deltas (transaction acc') = deltas t0 @ [d_out, d_in]
             \<and> vertex_out_edges s' (va_vertex from_va)
                 = vertex_out_edges s (va_vertex from_va) @ [(edge_type, va_vertex to_va, r)]
             \<and> vertex_in_edges s' (va_vertex to_va)
                 = vertex_in_edges s (va_vertex to_va) @ [(edge_type, va_vertex from_va, r)]
             \<and> vertex_delta s' (va_vertex from_va)
                 = (if va_vertex from_va = va_vertex to_va then [d_in, d_out] else [d_out]) @ delta fv
             \<and> vertex_delta s' (va_vertex to_va)
                 = (if va_vertex from_va = va_vertex to_va then [d_in, d_out] else [d_in]) @ delta tv))"
  proof (cases ?ok)
    case True
    have "properties_on_edges acc \<longrightarrow> edges s (edge_id s) = None \<Longrightarrow> ?thesis"
      using True h
        CreateEdge_writes [where from_va = from_va and to_va = to_va and acc = acc and s = s
          and fv = fv and tv = tv and edge_type = edge_type, OF _ _ _ _ _ _ _ _ _ refl refl refl refl]
      by (simp add: Let_def)
    then show ?thesis using True by auto
  next
    case False
    then show ?thesis using h by (auto simp: CreateEdge_def Let_def)
  qed
qed

theorem write_conflict_check_witness:
  "EdgeAccessor_SetProperty (ex_edge_poe 0) 1 (PInt 5) (ex_storage_poe, ex_transaction)
     = (Inl (Err SERIALIZATION_ERROR), ex_storage_poe, ex_transaction)
   \<and> (case CreateEdge (ex_va 0) (ex_va 2) 7 (ex_storage, ex_accessor) of (res, s', acc') \<Rightarrow>
         res = Inr \<lparr>ea_edge = EdgeRefGid 1, ea_edge_type = 7, ea_from_vertex = 0,
                    ea_to_vertex = 2, ea_transaction = 1000\<rparr>
       \<and> vertex_out_edges s' 0 = [(7, 1, EdgeRefGid 0), (7, 2, EdgeRefGid 1)]
       \<and> vertex_in_edges s' 2 = [(7, 0, EdgeRefGid 1)]
       \<and> map action (deltas (transaction acc'))
            = [REMOVE_OUT_EDGE 7 2 (EdgeRefGid 1), REMOVE_IN_EDGE 7 0 (EdgeRefGid 1)])"
proof -
  note T = write_conflict_check [of ex_storage_poe "ex_edge_poe 0" 1 "PInt 5" ex_transaction]
  have d: "deref_edge ex_storage_poe (ea_edge (ex_edge_poe 0)) = Some (0, ex_edge_object)"
    by (simp add: deref_edge_def ex_edge_poe_def ex_storage_poe_def)
  have p: "\<not> PrepareForWrite ex_storage_poe ex_transaction (e_delta ex_edge_object)"
    by (simp add: PrepareForWrite_def ex_edge_object_def ex_storage_poe_def ex_transaction_def)
  from T [THEN conjunct1, THEN spec, THEN spec, THEN mp, OF d] p
  have 1: "EdgeAccessor_SetProperty (ex_edge_poe 0) 1 (PInt 5) (ex_storage_poe, ex_transaction)
     = (Inl (Err SERIALIZATION_ERROR), ex_storage_poe, ex_transaction)"
    by simp
  note U = write_conflict_check [of ex_storage "ex_edge_poe 0" 1 "PInt 5" ex_transaction
      "ex_va 0" "ex_va 2" ex_accessor 7]
  have h: "va_transaction (ex_va 0) = va_transaction (ex_va 2)
         \<and> va_transaction (ex_va 0) = transaction_id (transaction ex_accessor)
         \<and> vertices ex_storage (va_vertex (ex_va 0)) = Some (plain_vertex 0 [] [(7, 1, EdgeRefGid 0)])
         \<and> vertices ex_storage (va_vertex (ex_va 2)) = Some (plain_vertex 2 [] [])"
    by (simp add: ex_va_def ex_accessor_def ex_transaction_def ex_storage_def)
  from U [THEN conjunct2, THEN spec, THEN spec, THEN mp, OF h]
  have 2: "case CreateEdge (ex_va 0) (ex_va 2) 7 (ex_storage, ex_accessor) of (res, s', acc') \<Rightarrow>
         res = Inr \<lparr>ea_edge = EdgeRefGid 1, ea_edge_type = 7, ea_from_vertex = 0,
                    ea_to_vertex = 2, ea_transaction = 1000\<rparr>
       \<and> vertex_out_edges s' 0 = [(7, 1, EdgeRefGid 0), (7, 2, EdgeRefGid 1)]
       \<and> vertex_in_edges s' 2 = [(7, 0, EdgeRefGid 1)]
       \<and> map action (deltas (transaction acc'))
            = [REMOVE_OUT_EDGE 7 2 (EdgeRefGid 1), REMOVE_IN_EDGE 7 0 (EdgeRefGid 1)]"
    by (simp add: PrepareForWrite_def plain_vertex_def ex_va_def ex_accessor_def ex_transaction_def
        ex_storage_def Let_def vertex_out_edges_def vertex_in_edges_def new_delta_def push_delta_def
        split: prod.splits)
  from 1 2 show ?thesis by blast
qed

section \<open>Re-targeting an edge to another vertex\<close>

lemma EdgeSetTo_edge_deleted:
  assumes tx: "ea_transaction edge = va_transaction new_to"
      "ea_transaction edge = transaction_id (transaction acc)"
    and b: "vertices s (ea_to_vertex edge) = Some bv"
    and c: "vertices s (va_vertex new_to) = Some cv"
    and gids: "gid bv \<noteq> gid cv"
    and e: "properties_on_edges acc" "deref_edge s (ea_edge edge) = Some (g, e)"
      "PrepareForWrite s (transaction acc) (e_delta e)" "e_deleted e"
  shows "EdgeSetTo edge new_to (s, acc) = (Inl (Err DELETED_OBJECT), s, acc)"
  using assms by (simp add: EdgeSetTo_def Let_def prepare_edge_def)

lemma EdgeSetTo_endpoint_deleted:
  assumes tx: "ea_transaction edge = va_transaction new_to"
      "ea_transaction edge = transaction_id (transaction acc)"
    and a: "vertices s (ea_from_vertex edge) = Some av"
    and b: "vertices s (ea_to_vertex edge) = Some bv"
    and c: "vertices s (va_vertex new_to) = Some cv"
    and gids: "gid bv \<noteq> gid cv"
    and pe: "prepare_edge (s, acc) (ea_edge edge) = None"
    and pw: "PrepareForWrite s (transaction acc) (delta av)"
      "PrepareForWrite s (transaction acc) (delta bv)"
      "PrepareForWrite s (transaction acc) (delta cv)"
    and d: "deleted av \<or> deleted bv \<or> deleted cv"
  shows "EdgeSetTo edge new_to (s, acc) = (Inl Fatal, s, acc)"
proof -
  have pb: "prepare_vertex s (transaction acc) (ea_to_vertex edge)
      = (if deleted bv then Some Fatal else None)"
    using b pw by (simp add: prepare_vertex_def)
  have pc: "prepare_vertex s (transaction acc) (va_vertex new_to)
      = (if deleted cv then Some Fatal else None)"
    using c pw by (simp add: prepare_vertex_def)
  have pa: "prepare_vertex s (transaction acc) (ea_from_vertex edge)
      = (if deleted av then Some Fatal else None)"
    using a pw by (simp add: prepare_vertex_def)
  have al: "ea_from_vertex edge = ea_to_vertex edge \<Longrightarrow> av = bv"
    "ea_from_vertex edge = va_vertex new_to \<Longrightarrow> av = cv"
    using a b c by auto
  show ?thesis
    using tx b c gids pe pa pb pc d al lock_order_ok
    by (auto simp add: EdgeSetTo_def Let_def)
qed

lemma EdgeSetTo_edge_conflict:
  assumes tx: "ea_transaction edge = va_transaction new_to"
      "ea_transaction edge = transaction_id (transaction acc)"
    and b: "vertices s (ea_to_vertex edge) = Some bv"
    and c: "vertices s (va_vertex new_to) = Some cv"
    and gids: "gid bv \<noteq> gid cv"
    and e: "properties_on_edges acc" "deref_edge s (ea_edge edge) = Some (g, e)"
      "\<not> PrepareForWrite s (transaction acc) (e_delta e)"
  shows "EdgeSetTo edge new_to (s, acc) = (Inl (Err SERIALIZATION_ERROR), s, acc)"
  using assms by (simp add: EdgeSetTo_def Let_def prepare_edge_def)

lemma EdgeSetTo_vertex_conflict:
  assumes tx: "ea_transaction edge = va_transaction new_to"
      "ea_transaction edge = transaction_id (transaction acc)"
    and a: "vertices s (ea_from_vertex edge) = Some av"
    and b: "vertices s (ea_to_vertex edge) = Some bv"
    and c: "vertices s (va_vertex new_to) = Some cv"
    and gids: "gid bv \<noteq> gid cv"
    and pe: "prepare_edge (s, acc) (ea_edge edge) = None"
    and nd: "\<not> deleted av" "\<not> deleted bv" "\<not> deleted cv"
    and pw: "\<not> (PrepareForWrite s (transaction acc) (delta av)
        \<and> PrepareForWrite s (transaction acc) (delta bv)
        \<and> PrepareForWrite s (transaction acc) (delta cv))"
  shows "EdgeSetTo edge new_to (s, acc) = (Inl (Err SERIALIZATION_ERROR), s, acc)"
proof -
  have pb: "prepare_vertex s (transaction acc) (ea_to_vertex edge)
      = (if \<not> PrepareForWrite s (transaction acc) (delta bv) then Some (Err SERIALIZATION_ERROR) else None)"
    using b nd by (simp add: prepare_vertex_def)
  have pc: "prepare_vertex s (transaction acc) (va_vertex new_to)
      = (if \<not> PrepareForWrite s (transaction acc) (delta cv) then Some (Err SERIALIZATION_ERROR) else None)"
    using c nd by (simp add: prepare_vertex_def)
  have pa: "prepare_vertex s (transaction acc) (ea_from_vertex edge)
      = (if \<not> PrepareForWrite s (transaction acc) (delta av) then Some (Err SERIALIZATION_ERROR) else None)"
    using a nd by (simp add: prepare_vertex_def)
  have al: "ea_from_vertex edge = ea_to_vertex edge \<Longrightarrow> av = bv"
    "ea_from_vertex edge = va_vertex new_to \<Longrightarrow> av = cv"
    using a b c by auto
  show ?thesis
    using tx b c gids pe pa pb pc pw al lock_order_ok
    by (auto simp add: EdgeSetTo_def Let_def)
qed

text \<open>
  C7 as stated fails: edge 0 goes from vertex 0 to vertex 1 and vertex 2 is not deleted, but
  its head delta is of transaction 999, which is still active: \<^verbatim>\<open>EdgeSetTo\<close> returns
  \<open>SERIALIZATION_ERROR\<close> (line 1181) and re-targets nothing.
\<close>

theorem EdgeSetTo_write_conflict:
  "vertices ex_storage_held 0 = Some (plain_vertex 0 [] [(7, 1, EdgeRefGid 0)])
   \<and> vertices ex_storage_held 1 = Some (plain_vertex 1 [(7, 0, EdgeRefGid 0)] [])
   \<and> vertices ex_storage_held 2 = Some ex_held_vertex
   \<and> \<not> deleted ex_held_vertex \<and> gid ex_held_vertex \<noteq> gid (plain_vertex 1 [(7, 0, EdgeRefGid 0)] [])
   \<and> EdgeSetTo ex_edge (ex_va 2) (ex_storage_held, ex_accessor)
       = (Inl (Err SERIALIZATION_ERROR), ex_storage_held, ex_accessor)"
  by (simp add: ex_storage_held_def ex_held_vertex_def ex_storage_def ex_edge_def ex_va_def
      ex_accessor_def ex_transaction_def plain_vertex_def EdgeSetTo_def Let_def prepare_edge_def
      prepare_vertex_def PrepareForWrite_def lock_order_def)

text \<open>
  C7, amended: no other active transaction holds the head delta of the edge object or of
  one of the three vertices; when one does, \<^verbatim>\<open>EdgeSetTo\<close> returns \<open>SERIALIZATION_ERROR\<close>
  and changes nothing. For an edge \<open>e\<close> from \<open>A\<close> to \<open>B\<close> and a vertex \<open>C\<close> whose gid differs from that
  of \<open>B\<close>, all three in the storage and the accessors of the transaction of the storage
  accessor: \<^verbatim>\<open>EdgeSetTo\<close> returns \<open>DELETED_OBJECT\<close> for a deleted edge object, fails its
  assertion for a deleted endpoint, and otherwise, when no other transaction holds the
  objects and the adjacency vectors of \<open>A\<close> and \<open>B\<close> hold the one entry of \<open>e\<close>, returns the
  edge with its new to-vertex, having pushed the four deltas; after it the out-edges of
  \<open>A\<close> hold exactly one entry of \<open>e\<close>, to \<open>C\<close>, the in-edges of \<open>B\<close> hold none, and the
  in-edges of \<open>C\<close> hold \<open>e\<close>.
\<close>

theorem EdgeSetTo_retargets:
  assumes tx: "ea_transaction edge = va_transaction new_to"
      "ea_transaction edge = transaction_id (transaction acc)"
    and a: "vertices s (ea_from_vertex edge) = Some av"
    and b: "vertices s (ea_to_vertex edge) = Some bv"
    and c: "vertices s (va_vertex new_to) = Some cv"
    and gids: "gid bv \<noteq> gid cv"
  shows "(\<forall>g e. properties_on_edges acc \<and> deref_edge s (ea_edge edge) = Some (g, e)
            \<and> PrepareForWrite s (transaction acc) (e_delta e) \<and> e_deleted e
          \<longrightarrow> EdgeSetTo edge new_to (s, acc) = (Inl (Err DELETED_OBJECT), s, acc))
      \<and> (prepare_edge (s, acc) (ea_edge edge) = None
          \<and> PrepareForWrite s (transaction acc) (delta av)
          \<and> PrepareForWrite s (transaction acc) (delta bv)
          \<and> PrepareForWrite s (transaction acc) (delta cv)
         \<longrightarrow>
          (deleted av \<or> deleted bv \<or> deleted cv
             \<longrightarrow> EdgeSetTo edge new_to (s, acc) = (Inl Fatal, s, acc))
        \<and> (\<not> deleted av \<and> \<not> deleted bv \<and> \<not> deleted cv
            \<and> filter (\<lambda>l. snd (snd l) = ea_edge edge) (out_edges av)
                = [(ea_edge_type edge, ea_to_vertex edge, ea_edge edge)]
            \<and> filter (\<lambda>l. snd (snd l) = ea_edge edge) (in_edges bv)
                = [(ea_edge_type edge, ea_from_vertex edge, ea_edge edge)]
           \<longrightarrow>
            (case EdgeSetTo edge new_to (s, acc) of (r, s', acc') \<Rightarrow>
                r = Inr (edge\<lparr>ea_to_vertex := va_vertex new_to\<rparr>)
              \<and> filter (\<lambda>l. snd (snd l) = ea_edge edge) (vertex_out_edges s' (ea_from_vertex edge))
                  = [(ea_edge_type edge, va_vertex new_to, ea_edge edge)]
              \<and> filter (\<lambda>l. snd (snd l) = ea_edge edge) (vertex_in_edges s' (ea_to_vertex edge)) = []
              \<and> (ea_edge_type edge, ea_from_vertex edge, ea_edge edge)
                  \<in> set (vertex_in_edges s' (va_vertex new_to))
              \<and> map action (deltas (transaction acc')) = map action (deltas (transaction acc)) @
                  [ADD_OUT_EDGE (ea_edge_type edge) (ea_to_vertex edge) (ea_edge edge),
                   ADD_IN_EDGE (ea_edge_type edge) (ea_from_vertex edge) (ea_edge edge),
                   REMOVE_OUT_EDGE (ea_edge_type edge) (va_vertex new_to) (ea_edge edge),
                   REMOVE_IN_EDGE (ea_edge_type edge) (ea_from_vertex edge) (ea_edge edge)])))
      \<and> (prepare_edge (s, acc) (ea_edge edge) = None
          \<and> \<not> deleted av \<and> \<not> deleted bv \<and> \<not> deleted cv
          \<and> \<not> (PrepareForWrite s (transaction acc) (delta av)
               \<and> PrepareForWrite s (transaction acc) (delta bv)
               \<and> PrepareForWrite s (transaction acc) (delta cv))
         \<longrightarrow> EdgeSetTo edge new_to (s, acc) = (Inl (Err SERIALIZATION_ERROR), s, acc))
      \<and> (\<forall>g e. properties_on_edges acc \<and> deref_edge s (ea_edge edge) = Some (g, e)
            \<and> \<not> PrepareForWrite s (transaction acc) (e_delta e)
          \<longrightarrow> EdgeSetTo edge new_to (s, acc) = (Inl (Err SERIALIZATION_ERROR), s, acc))"
proof (intro conjI allI impI)
  fix g e
  assume "properties_on_edges acc \<and> deref_edge s (ea_edge edge) = Some (g, e)
            \<and> PrepareForWrite s (transaction acc) (e_delta e) \<and> e_deleted e"
  then show "EdgeSetTo edge new_to (s, acc) = (Inl (Err DELETED_OBJECT), s, acc)"
    using EdgeSetTo_edge_deleted [OF tx b c gids] by blast
next
  assume p: "prepare_edge (s, acc) (ea_edge edge) = None
          \<and> PrepareForWrite s (transaction acc) (delta av)
          \<and> PrepareForWrite s (transaction acc) (delta bv)
          \<and> PrepareForWrite s (transaction acc) (delta cv)"
    and d: "deleted av \<or> deleted bv \<or> deleted cv"
  from p have pe: "prepare_edge (s, acc) (ea_edge edge) = None"
    and pw: "PrepareForWrite s (transaction acc) (delta av)"
      "PrepareForWrite s (transaction acc) (delta bv)"
      "PrepareForWrite s (transaction acc) (delta cv)"
    by simp_all
  show "EdgeSetTo edge new_to (s, acc) = (Inl Fatal, s, acc)"
    by (rule EdgeSetTo_endpoint_deleted [OF tx a b c gids pe pw d])
next
  assume p: "prepare_edge (s, acc) (ea_edge edge) = None
          \<and> PrepareForWrite s (transaction acc) (delta av)
          \<and> PrepareForWrite s (transaction acc) (delta bv)
          \<and> PrepareForWrite s (transaction acc) (delta cv)"
    and q: "\<not> deleted av \<and> \<not> deleted bv \<and> \<not> deleted cv
            \<and> filter (\<lambda>l. snd (snd l) = ea_edge edge) (out_edges av)
                = [(ea_edge_type edge, ea_to_vertex edge, ea_edge edge)]
            \<and> filter (\<lambda>l. snd (snd l) = ea_edge edge) (in_edges bv)
                = [(ea_edge_type edge, ea_from_vertex edge, ea_edge edge)]"
  from p have pe: "prepare_edge (s, acc) (ea_edge edge) = None"
    and pw: "PrepareForWrite s (transaction acc) (delta av)"
      "PrepareForWrite s (transaction acc) (delta bv)"
      "PrepareForWrite s (transaction acc) (delta cv)"
    by simp_all
  from q have nd: "\<not> deleted av" "\<not> deleted bv" "\<not> deleted cv"
    and out: "filter (\<lambda>l. snd (snd l) = ea_edge edge) (out_edges av)
                = [(ea_edge_type edge, ea_to_vertex edge, ea_edge edge)]"
    and inn: "filter (\<lambda>l. snd (snd l) = ea_edge edge) (in_edges bv)
                = [(ea_edge_type edge, ea_from_vertex edge, ea_edge edge)]"
    by simp_all
  let ?A = "ea_from_vertex edge" and ?B = "ea_to_vertex edge" and ?C = "va_vertex new_to"
  let ?ty = "ea_edge_type edge" and ?e = "ea_edge edge"
  let ?P = "\<lambda>l::Link. snd (snd l) = ?e"
  from gids b c have bc: "?B \<noteq> ?C" by auto
  have "(?ty, ?B, ?e) \<in> set (filter ?P (out_edges av))" by (simp only: out list.set_intros)
  then have "(?ty, ?B, ?e) \<in> set (out_edges av)" by simp
  then obtain i where i: "find_index (?ty, ?B, ?e) (out_edges av) = Some i"
    using find_index_mem by fast
  have "(?ty, ?A, ?e) \<in> set (filter ?P (in_edges bv))" by (simp only: inn list.set_intros)
  then have "(?ty, ?A, ?e) \<in> set (in_edges bv)" by simp
  then obtain j where j: "find_index (?ty, ?A, ?e) (in_edges bv) = Some j"
    using find_index_mem by fast
  obtain r s' tx' where R: "relink_edge (properties_on_edges acc) ?ty ?e ?A ?B ?A ?C (s, transaction acc)
        = (r, s', tx')"
    by (rule prod_cases3)
  from relink_to [OF a b c bc i j, where poe = "properties_on_edges acc" and tx = "transaction acc"]
  have r: "r = Inr ()"
    and o': "vertex_out_edges s' ?A = swap_pop i (out_edges av) @ [(?ty, ?C, ?e)]"
    and i': "vertex_in_edges s' ?B = swap_pop j (in_edges bv)"
    and c': "vertex_in_edges s' ?C = in_edges cv @ [(?ty, ?A, ?e)]"
    and d': "map action (deltas tx') = map action (deltas (transaction acc)) @
        [ADD_OUT_EDGE ?ty ?B ?e, ADD_IN_EDGE ?ty ?A ?e, REMOVE_OUT_EDGE ?ty ?C ?e,
         REMOVE_IN_EDGE ?ty ?A ?e]"
    unfolding R by simp_all
  have run: "EdgeSetTo edge new_to (s, acc)
      = (Inr (edge\<lparr>ea_to_vertex := ?C\<rparr>), s', acc\<lparr>transaction := tx'\<rparr>)"
    by (rule EdgeSetTo_run [OF tx b c gids pe prepare_vertex_None [OF a pw(1) nd(1)]
          prepare_vertex_None [OF b pw(2) nd(2)] prepare_vertex_None [OF c pw(3) nd(3)]
          R [unfolded r]])
  from find_index_Some [OF i] have il: "i < length (out_edges av)"
    and ix: "out_edges av ! i = (?ty, ?B, ?e)" by simp_all
  from find_index_Some [OF j] have jl: "j < length (in_edges bv)"
    and jx: "in_edges bv ! j = (?ty, ?A, ?e)" by simp_all
  have f1: "filter ?P (swap_pop i (out_edges av)) = []"
    by (rule filter_swap_pop_only [OF il]) (simp only: out ix)
  have f2: "filter ?P (swap_pop j (in_edges bv)) = []"
    by (rule filter_swap_pop_only [OF jl]) (simp only: inn jx)
  show "case EdgeSetTo edge new_to (s, acc) of (r, s', acc') \<Rightarrow>
                r = Inr (edge\<lparr>ea_to_vertex := va_vertex new_to\<rparr>)
              \<and> filter (\<lambda>l. snd (snd l) = ea_edge edge) (vertex_out_edges s' (ea_from_vertex edge))
                  = [(ea_edge_type edge, va_vertex new_to, ea_edge edge)]
              \<and> filter (\<lambda>l. snd (snd l) = ea_edge edge) (vertex_in_edges s' (ea_to_vertex edge)) = []
              \<and> (ea_edge_type edge, ea_from_vertex edge, ea_edge edge)
                  \<in> set (vertex_in_edges s' (va_vertex new_to))
              \<and> map action (deltas (transaction acc')) = map action (deltas (transaction acc)) @
                  [ADD_OUT_EDGE (ea_edge_type edge) (ea_to_vertex edge) (ea_edge edge),
                   ADD_IN_EDGE (ea_edge_type edge) (ea_from_vertex edge) (ea_edge edge),
                   REMOVE_OUT_EDGE (ea_edge_type edge) (va_vertex new_to) (ea_edge edge),
                   REMOVE_IN_EDGE (ea_edge_type edge) (ea_from_vertex edge) (ea_edge edge)]"
    unfolding run prod.case by (simp add: o' i' c' d' f1 f2)
next
  assume p: "prepare_edge (s, acc) (ea_edge edge) = None
          \<and> \<not> deleted av \<and> \<not> deleted bv \<and> \<not> deleted cv
          \<and> \<not> (PrepareForWrite s (transaction acc) (delta av)
               \<and> PrepareForWrite s (transaction acc) (delta bv)
               \<and> PrepareForWrite s (transaction acc) (delta cv))"
  then have pe: "prepare_edge (s, acc) (ea_edge edge) = None"
    and nd: "\<not> deleted av" "\<not> deleted bv" "\<not> deleted cv"
    and pw: "\<not> (PrepareForWrite s (transaction acc) (delta av)
               \<and> PrepareForWrite s (transaction acc) (delta bv)
               \<and> PrepareForWrite s (transaction acc) (delta cv))"
    by blast+
  show "EdgeSetTo edge new_to (s, acc) = (Inl (Err SERIALIZATION_ERROR), s, acc)"
    by (rule EdgeSetTo_vertex_conflict [OF tx a b c gids pe nd pw])
next
  fix g e
  assume "properties_on_edges acc \<and> deref_edge s (ea_edge edge) = Some (g, e)
            \<and> \<not> PrepareForWrite s (transaction acc) (e_delta e)"
  then show "EdgeSetTo edge new_to (s, acc) = (Inl (Err SERIALIZATION_ERROR), s, acc)"
    using EdgeSetTo_edge_conflict [OF tx b c gids] by blast
qed

theorem EdgeSetTo_retargets_witness:
  "case EdgeSetTo ex_edge (ex_va 2) (ex_storage, ex_accessor) of (r, s', acc') \<Rightarrow>
      r = Inr (ex_edge\<lparr>ea_to_vertex := 2\<rparr>)
    \<and> filter (\<lambda>l. snd (snd l) = EdgeRefGid 0) (vertex_out_edges s' 0) = [(7, 2, EdgeRefGid 0)]
    \<and> filter (\<lambda>l. snd (snd l) = EdgeRefGid 0) (vertex_in_edges s' 1) = []
    \<and> (7, 0, EdgeRefGid 0) \<in> set (vertex_in_edges s' 2)"
proof -
  have tx: "ea_transaction ex_edge = va_transaction (ex_va 2)"
    "ea_transaction ex_edge = transaction_id (transaction ex_accessor)"
    by (simp_all add: ex_edge_def ex_va_def ex_accessor_def ex_transaction_def)
  have a: "vertices ex_storage (ea_from_vertex ex_edge) = Some (plain_vertex 0 [] [(7, 1, EdgeRefGid 0)])"
    and b: "vertices ex_storage (ea_to_vertex ex_edge) = Some (plain_vertex 1 [(7, 0, EdgeRefGid 0)] [])"
    and c: "vertices ex_storage (va_vertex (ex_va 2)) = Some (plain_vertex 2 [] [])"
    by (simp_all add: ex_storage_def ex_edge_def ex_va_def)
  have gids: "gid (plain_vertex 1 [(7, 0, EdgeRefGid 0)] []) \<noteq> gid (plain_vertex 2 [] [])"
    by (simp add: plain_vertex_def)
  have p: "prepare_edge (ex_storage, ex_accessor) (ea_edge ex_edge) = None
          \<and> PrepareForWrite ex_storage (transaction ex_accessor)
              (delta (plain_vertex 0 [] [(7, 1, EdgeRefGid 0)]))
          \<and> PrepareForWrite ex_storage (transaction ex_accessor)
              (delta (plain_vertex 1 [(7, 0, EdgeRefGid 0)] []))
          \<and> PrepareForWrite ex_storage (transaction ex_accessor) (delta (plain_vertex 2 [] []))"
    by (simp add: prepare_edge_def ex_accessor_def PrepareForWrite_def plain_vertex_def)
  have q: "\<not> deleted (plain_vertex 0 [] [(7, 1, EdgeRefGid 0)])
      \<and> \<not> deleted (plain_vertex 1 [(7, 0, EdgeRefGid 0)] [])
      \<and> \<not> deleted (plain_vertex 2 [] [])
      \<and> filter (\<lambda>l. snd (snd l) = ea_edge ex_edge) (out_edges (plain_vertex 0 [] [(7, 1, EdgeRefGid 0)]))
          = [(ea_edge_type ex_edge, ea_to_vertex ex_edge, ea_edge ex_edge)]
      \<and> filter (\<lambda>l. snd (snd l) = ea_edge ex_edge) (in_edges (plain_vertex 1 [(7, 0, EdgeRefGid 0)] []))
          = [(ea_edge_type ex_edge, ea_from_vertex ex_edge, ea_edge ex_edge)]"
    by (simp add: plain_vertex_def ex_edge_def)
  from EdgeSetTo_retargets [OF tx a b c gids, THEN conjunct2, THEN conjunct1, THEN mp, OF p,
      THEN conjunct2, THEN mp, OF q]
  show ?thesis
    by (simp add: ex_edge_def ex_va_def split: prod.splits)
qed


section \<open>Creating a unique constraint\<close>

lemma map_erase_emplace:
  "k \<notin> fst ` set m \<Longrightarrow> map_erase k (map_set k v (fst (map_emplace k v0 m))) = m"
proof -
  assume k: "k \<notin> fst ` set m"
  have 1: "filter (\<lambda>kv. fst kv \<noteq> k) m = m" using k by (induction m) auto
  have 2: "\<And>x. filter (\<lambda>kv. fst kv \<noteq> k) (map (\<lambda>kv. if fst kv = k then (k, v) else kv) x)
            = filter (\<lambda>kv. fst kv \<noteq> k) x"
  proof -
    fix x :: "('a \<times> 'b) list" show "filter (\<lambda>kv. fst kv \<noteq> k) (map (\<lambda>kv. if fst kv = k then (k, v) else kv) x)
            = filter (\<lambda>kv. fst kv \<noteq> k) x" by (induction x) auto
  qed
  have 3: "filter (\<lambda>kv. fst kv \<noteq> k) (insort_key fst (k, v0) m) = filter (\<lambda>kv. fst kv \<noteq> k) m"
    by (induction m) auto
  show ?thesis using k by (simp add: map_erase_def map_set_def map_emplace_def 1 2 3)
qed

lemma sorted_entries_fst: "sorted (es :: Entry list) \<Longrightarrow> sorted (map fst es)"
  by (induction es) (auto simp: less_eq_prod_def)

lemma sorted_skiplist_insert: "sorted es \<Longrightarrow> sorted (skiplist_insert e es)"
  by (simp add: skiplist_insert_def sorted_insort)

lemma set_skiplist_insert: "set (skiplist_insert e es) = insert e (set es)"
  by (simp add: skiplist_insert_def set_insort_key insert_absorb)

lemma find_equal_or_greater_hit:
  "sorted (map fst es) \<Longrightarrow>
     (case find_equal_or_greater v es of [] \<Rightarrow> False | e # _ \<Rightarrow> fst e = v) \<longleftrightarrow> v \<in> fst ` set es"
proof (induction es)
  case Nil
  then show ?case by (simp add: find_equal_or_greater_def)
next
  case (Cons a es)
  show ?case
  proof (cases "fst a < v")
    case True
    then show ?thesis using Cons by (auto simp: find_equal_or_greater_def)
  next
    case False
    have "\<forall>x \<in> set es. fst a \<le> fst x" using Cons.prems by auto
    then have "v \<in> fst ` set es \<Longrightarrow> fst a = v" using False by fastforce
    then show ?thesis using False by (auto simp: find_equal_or_greater_def)
  qed
qed

lemma scan_vertices_violation:
  assumes "sorted acc"
  shows "fst (scan_vertices label props vs acc) \<longleftrightarrow>
     (\<exists>i < length vs. \<exists>vals. constrained_values label props (vs ! i) = Some vals
        \<and> (vals \<in> fst ` set acc
            \<or> (\<exists>j < i. constrained_values label props (vs ! j) = Some vals)))"
  using assms
proof (induction vs arbitrary: acc)
  case Nil
  then show ?case by simp
next
  case (Cons v vs)
  show ?case
  proof (cases "constrained_values label props v")
    case None
    then have step: "scan_vertices label props (v # vs) acc = scan_vertices label props vs acc"
      by (auto simp: constrained_values_def split: if_splits)
    have "(\<exists>i < length (v # vs). \<exists>vals. constrained_values label props ((v # vs) ! i) = Some vals
        \<and> (vals \<in> fst ` set acc
            \<or> (\<exists>j < i. constrained_values label props ((v # vs) ! j) = Some vals)))
      \<longleftrightarrow> (\<exists>i < length vs. \<exists>vals. constrained_values label props (vs ! i) = Some vals
        \<and> (vals \<in> fst ` set acc
            \<or> (\<exists>j < i. constrained_values label props (vs ! j) = Some vals)))"
      (is "?L \<longleftrightarrow> ?R")
    proof
      assume ?L
      then obtain i vals where i: "i < length (v # vs)"
        and c: "constrained_values label props ((v # vs) ! i) = Some vals"
        and d: "vals \<in> fst ` set acc \<or> (\<exists>j < i. constrained_values label props ((v # vs) ! j) = Some vals)"
        by blast
      from c None obtain i' where i': "i = Suc i'" by (cases i) auto
      from d have "vals \<in> fst ` set acc \<or> (\<exists>j < i'. constrained_values label props (vs ! j) = Some vals)"
      proof
        assume "vals \<in> fst ` set acc" then show ?thesis by simp
      next
        assume "\<exists>j < i. constrained_values label props ((v # vs) ! j) = Some vals"
        then obtain j where j: "j < i" "constrained_values label props ((v # vs) ! j) = Some vals" by blast
        with None obtain j' where "j = Suc j'" by (cases j) auto
        with j i' show ?thesis by auto
      qed
      with i c i' show ?R by auto
    next
      assume ?R
      then obtain i vals where i: "i < length vs"
        and c: "constrained_values label props (vs ! i) = Some vals"
        and d: "vals \<in> fst ` set acc \<or> (\<exists>j < i. constrained_values label props (vs ! j) = Some vals)"
        by blast
      from d have "vals \<in> fst ` set acc
          \<or> (\<exists>j < Suc i. constrained_values label props ((v # vs) ! j) = Some vals)"
      proof
        assume "vals \<in> fst ` set acc" then show ?thesis by simp
      next
        assume "\<exists>j < i. constrained_values label props (vs ! j) = Some vals"
        then obtain j where "j < i" "constrained_values label props (vs ! j) = Some vals" by blast
        then have "Suc j < Suc i \<and> constrained_values label props ((v # vs) ! Suc j) = Some vals" by simp
        then show ?thesis by blast
      qed
      moreover have "Suc i < length (v # vs)" using i by simp
      moreover have "constrained_values label props ((v # vs) ! Suc i) = Some vals" using c by simp
      ultimately show ?L by blast
    qed
    with step Cons show ?thesis by simp
  next
    case (Some vals)
    then have nd: "\<not> (deleted v \<or> label \<notin> set (labels v))"
      and ex: "ExtractPropertyValues (properties v) props = Some vals"
      by (auto simp: constrained_values_def split: if_splits)
    have hit: "(case find_equal_or_greater vals acc of [] \<Rightarrow> False | e # _ \<Rightarrow> fst e = vals)
        \<longleftrightarrow> vals \<in> fst ` set acc"
      by (rule find_equal_or_greater_hit) (rule sorted_entries_fst [OF Cons.prems])
    show ?thesis
    proof (cases "vals \<in> fst ` set acc")
      case True
      with hit have "fst (scan_vertices label props (v # vs) acc)"
        using nd ex by (auto split: list.splits)
      moreover have "0 < length (v # vs) \<and> constrained_values label props ((v # vs) ! 0) = Some vals"
        using Some by simp
      ultimately show ?thesis using True by blast
    next
      case False
      with hit have step: "scan_vertices label props (v # vs) acc
          = scan_vertices label props vs (skiplist_insert (vals, gid v, 0) acc)"
        using nd ex by (auto split: list.splits)
      let ?acc = "skiplist_insert (vals, gid v, 0) acc"
      have ih: "fst (scan_vertices label props vs ?acc) \<longleftrightarrow>
         (\<exists>i < length vs. \<exists>w. constrained_values label props (vs ! i) = Some w
            \<and> (w \<in> fst ` set ?acc \<or> (\<exists>j < i. constrained_values label props (vs ! j) = Some w)))"
        by (rule Cons.IH) (rule sorted_skiplist_insert [OF Cons.prems])
      have fs: "fst ` set ?acc = insert vals (fst ` set acc)"
        by (simp add: set_skiplist_insert)
      have "(\<exists>i < length vs. \<exists>w. constrained_values label props (vs ! i) = Some w
            \<and> (w \<in> fst ` set ?acc \<or> (\<exists>j < i. constrained_values label props (vs ! j) = Some w)))
        \<longleftrightarrow> (\<exists>i < length (v # vs). \<exists>w. constrained_values label props ((v # vs) ! i) = Some w
            \<and> (w \<in> fst ` set acc
                \<or> (\<exists>j < i. constrained_values label props ((v # vs) ! j) = Some w)))"
        (is "?L \<longleftrightarrow> ?R")
      proof
        assume ?L
        then obtain i w where i: "i < length vs"
          and c: "constrained_values label props (vs ! i) = Some w"
          and d: "w \<in> fst ` set ?acc \<or> (\<exists>j < i. constrained_values label props (vs ! j) = Some w)"
          by blast
        from d fs have "w = vals \<or> w \<in> fst ` set acc
            \<or> (\<exists>j < i. constrained_values label props (vs ! j) = Some w)" by auto
        then have "w \<in> fst ` set acc
            \<or> (\<exists>j < Suc i. constrained_values label props ((v # vs) ! j) = Some w)"
        proof (elim disjE)
          assume "w = vals"
          then have "0 < Suc i \<and> constrained_values label props ((v # vs) ! 0) = Some w"
            using Some by simp
          then show ?thesis by blast
        next
          assume "w \<in> fst ` set acc" then show ?thesis by simp
        next
          assume "\<exists>j < i. constrained_values label props (vs ! j) = Some w"
          then obtain j where "j < i" "constrained_values label props (vs ! j) = Some w" by blast
          then have "Suc j < Suc i \<and> constrained_values label props ((v # vs) ! Suc j) = Some w" by simp
          then show ?thesis by blast
        qed
        moreover have "Suc i < length (v # vs)" using i by simp
        moreover have "constrained_values label props ((v # vs) ! Suc i) = Some w" using c by simp
        ultimately show ?R by blast
      next
        assume ?R
        then obtain i w where i: "i < length (v # vs)"
          and c: "constrained_values label props ((v # vs) ! i) = Some w"
          and d: "w \<in> fst ` set acc \<or> (\<exists>j < i. constrained_values label props ((v # vs) ! j) = Some w)"
          by blast
        have "i \<noteq> 0"
        proof
          assume "i = 0"
          with c Some have "w = vals" by simp
          with d \<open>i = 0\<close> False show False by simp
        qed
        then obtain i' where i': "i = Suc i'" by (cases i) auto
        from d have "w \<in> fst ` set ?acc \<or> (\<exists>j < i'. constrained_values label props (vs ! j) = Some w)"
        proof
          assume "w \<in> fst ` set acc" then show ?thesis using fs by simp
        next
          assume "\<exists>j < i. constrained_values label props ((v # vs) ! j) = Some w"
          then obtain j where j: "j < i" "constrained_values label props ((v # vs) ! j) = Some w" by blast
          show ?thesis
          proof (cases j)
            case 0
            with j Some have "w = vals" by simp
            then show ?thesis using fs by simp
          next
            case (Suc j')
            with j i' show ?thesis by auto
          qed
        qed
        with i c i' show ?L by auto
      qed
      with step ih show ?thesis by simp
    qed
  qed
qed

lemma scan_vertices_duplicates:
  "fst (scan_vertices label props vs []) \<longleftrightarrow>
     (\<exists>i j. i < j \<and> j < length vs \<and> (\<exists>vals. constrained_values label props (vs ! i) = Some vals
        \<and> constrained_values label props (vs ! j) = Some vals))"
proof -
  have "fst (scan_vertices label props vs []) \<longleftrightarrow>
     (\<exists>i < length vs. \<exists>vals. constrained_values label props (vs ! i) = Some vals
        \<and> (vals \<in> fst ` set ([] :: Entry list)
            \<or> (\<exists>j < i. constrained_values label props (vs ! j) = Some vals)))"
    by (rule scan_vertices_violation) simp
  also have "\<dots> \<longleftrightarrow> (\<exists>i j. i < j \<and> j < length vs \<and> (\<exists>vals. constrained_values label props (vs ! i) = Some vals
        \<and> constrained_values label props (vs ! j) = Some vals))"
    by auto
  finally show ?thesis .
qed

text \<open>
  C6 as stated fails: with one or two properties and two vertices that carry the label and
  the same values, the creation does not return a violation when the constraint is
  registered already; it returns \<open>ALREADY_EXISTS\<close> before any vertex is scanned.
\<close>

theorem CreateConstraint_already_exists_with_duplicates:
  "[1::nat] \<noteq> [] \<and> \<not> length [1::nat] > 4
   \<and> \<not> deleted (ex_duplicates ! 0) \<and> \<not> deleted (ex_duplicates ! 1)
   \<and> 5 \<in> set (labels (ex_duplicates ! 0)) \<and> 5 \<in> set (labels (ex_duplicates ! 1))
   \<and> map (properties (ex_duplicates ! 0)) [1] = [PInt 9]
   \<and> map (properties (ex_duplicates ! 1)) [1] = [PInt 9]
   \<and> CreateConstraint 5 [1] ex_duplicates ex_storage_constrained
       = (Inr ALREADY_EXISTS, ex_storage_constrained)"
  by (simp add: ex_duplicates_def labelled_vertex_def plain_vertex_def CreateConstraint_def
      kUniqueConstraintsMaxProperties_def map_emplace_def ex_storage_constrained_def)

text \<open>
  C6, amended. \<^verbatim>\<open>CreateConstraint\<close> returns \<open>EMPTY_PROPERTIES\<close> for no property and
  \<open>PROPERTIES_SIZE_LIMIT_EXCEEDED\<close> for more than four, and \<open>ALREADY_EXISTS\<close> when the
  constraint is registered, leaving the constraints as they are. Otherwise it scans the
  vertices: if two of them are not deleted, carry the label and have every property with
  the same values, it returns the unique violation and the constraints are as before (the
  storage it built is erased); if no two do, it returns \<open>SUCCESS\<close> and the constraint is
  registered.
\<close>

theorem CreateConstraint_checks:
  "(props = [] \<longrightarrow> CreateConstraint label props vs s = (Inr EMPTY_PROPERTIES, s))
   \<and> (props \<noteq> [] \<and> length props > 4
        \<longrightarrow> CreateConstraint label props vs s = (Inr PROPERTIES_SIZE_LIMIT_EXCEEDED, s))
   \<and> (props \<noteq> [] \<and> length props \<le> 4 \<and> (label, props) \<in> fst ` set (constraints s)
        \<longrightarrow> CreateConstraint label props vs s = (Inr ALREADY_EXISTS, s))
   \<and> (props \<noteq> [] \<and> length props \<le> 4 \<and> (label, props) \<notin> fst ` set (constraints s)
        \<longrightarrow> (if \<exists>i j. i < j \<and> j < length vs
                   \<and> (\<exists>vals. constrained_values label props (vs ! i) = Some vals
                         \<and> constrained_values label props (vs ! j) = Some vals)
             then CreateConstraint label props vs s = (Inl (UNIQUE, label, props), s)
             else fst (CreateConstraint label props vs s) = Inr SUCCESS
                \<and> (label, props) \<in> set (constraints_by_label (snd (CreateConstraint label props vs s)))
                \<and> (label, props) \<in> fst ` set (constraints (snd (CreateConstraint label props vs s)))))"
proof (intro conjI impI)
  show "props = [] \<Longrightarrow> CreateConstraint label props vs s = (Inr EMPTY_PROPERTIES, s)"
    by (simp add: CreateConstraint_def)
  show "props \<noteq> [] \<and> length props > 4
      \<Longrightarrow> CreateConstraint label props vs s = (Inr PROPERTIES_SIZE_LIMIT_EXCEEDED, s)"
    by (simp add: CreateConstraint_def kUniqueConstraintsMaxProperties_def)
  show "props \<noteq> [] \<and> length props \<le> 4 \<and> (label, props) \<in> fst ` set (constraints s)
      \<Longrightarrow> CreateConstraint label props vs s = (Inr ALREADY_EXISTS, s)"
    by (simp add: CreateConstraint_def kUniqueConstraintsMaxProperties_def map_emplace_def)
next
  assume h: "props \<noteq> [] \<and> length props \<le> 4 \<and> (label, props) \<notin> fst ` set (constraints s)"
  let ?dup = "\<exists>i j. i < j \<and> j < length vs
                   \<and> (\<exists>vals. constrained_values label props (vs ! i) = Some vals
                         \<and> constrained_values label props (vs ! j) = Some vals)"
  obtain found acc where sc: "scan_vertices label props vs [] = (found, acc)"
    by (cases "scan_vertices label props vs []")
  have found: "found \<longleftrightarrow> ?dup"
    using scan_vertices_duplicates [of label props vs] sc by simp
  let ?m = "insort_key fst ((label, props), []) (constraints s)"
  have er: "map_erase (label, props) (map_set (label, props) acc ?m) = constraints s"
    using map_erase_emplace [of "(label, props)" "constraints s" acc "[]"] h
    by (simp add: map_emplace_def)
  have run: "CreateConstraint label props vs s =
      (if found then (Inl (UNIQUE, label, props), s)
       else (Inr SUCCESS, s\<lparr>constraints := map_set (label, props) acc ?m,
               constraints_by_label := insort (label, props) (constraints_by_label s)\<rparr>))"
    using h sc er
    by (simp add: CreateConstraint_def kUniqueConstraintsMaxProperties_def map_emplace_def)
  have key: "(label, props) \<in> fst ` set (map_set (label, props) acc ?m)"
    by (force simp: map_set_def set_insort_key)
  have "if found
        then CreateConstraint label props vs s = (Inl (UNIQUE, label, props), s)
        else fst (CreateConstraint label props vs s) = Inr SUCCESS
                \<and> (label, props) \<in> set (constraints_by_label (snd (CreateConstraint label props vs s)))
                \<and> (label, props) \<in> fst ` set (constraints (snd (CreateConstraint label props vs s)))"
    using run key by (simp add: set_insort_key)
  then show "if ?dup
        then CreateConstraint label props vs s = (Inl (UNIQUE, label, props), s)
        else fst (CreateConstraint label props vs s) = Inr SUCCESS
                \<and> (label, props) \<in> set (constraints_by_label (snd (CreateConstraint label props vs s)))
                \<and> (label, props) \<in> fst ` set (constraints (snd (CreateConstraint label props vs s)))"
    by (simp only: found)
qed

theorem CreateConstraint_checks_witness:
  "CreateConstraint 5 [] ex_duplicates ex_storage = (Inr EMPTY_PROPERTIES, ex_storage)
   \<and> CreateConstraint 5 [1, 2, 3, 4, 6] ex_duplicates ex_storage
       = (Inr PROPERTIES_SIZE_LIMIT_EXCEEDED, ex_storage)
   \<and> CreateConstraint 5 [1] ex_duplicates ex_storage_constrained
       = (Inr ALREADY_EXISTS, ex_storage_constrained)
   \<and> CreateConstraint 5 [1] ex_duplicates ex_storage = (Inl (UNIQUE, 5, [1]), ex_storage)"
proof -
  have 1: "CreateConstraint 5 [] ex_duplicates ex_storage = (Inr EMPTY_PROPERTIES, ex_storage)"
    by (rule CreateConstraint_checks [THEN conjunct1, THEN mp]) (rule refl)
  have "[1, 2, 3, 4, 6 :: nat] \<noteq> [] \<and> length [1, 2, 3, 4, 6 :: nat] > 4"
    by simp
  then have 2: "CreateConstraint 5 [1, 2, 3, 4, 6] ex_duplicates ex_storage
       = (Inr PROPERTIES_SIZE_LIMIT_EXCEEDED, ex_storage)"
    by (rule CreateConstraint_checks [THEN conjunct2, THEN conjunct1, THEN mp])
  have "[1::nat] \<noteq> [] \<and> length [1::nat] \<le> 4
      \<and> (5, [1]) \<in> fst ` set (constraints ex_storage_constrained)"
    by (simp add: ex_storage_constrained_def)
  then have 3: "CreateConstraint 5 [1] ex_duplicates ex_storage_constrained
       = (Inr ALREADY_EXISTS, ex_storage_constrained)"
    by (rule CreateConstraint_checks [THEN conjunct2, THEN conjunct2, THEN conjunct1, THEN mp])
  have h: "[1::nat] \<noteq> [] \<and> length [1::nat] \<le> 4 \<and> (5, [1]) \<notin> fst ` set (constraints ex_storage)"
    by (simp add: ex_storage_def)
  have "(0::nat) < 1 \<and> 1 < length ex_duplicates
      \<and> (\<exists>vals. constrained_values 5 [1] (ex_duplicates ! 0) = Some vals
            \<and> constrained_values 5 [1] (ex_duplicates ! 1) = Some vals)"
    by (simp add: ex_duplicates_def constrained_values_def labelled_vertex_def plain_vertex_def
        ExtractPropertyValues_def)
  then have d: "\<exists>i j. i < j \<and> j < length ex_duplicates
      \<and> (\<exists>vals. constrained_values 5 [1] (ex_duplicates ! i) = Some vals
            \<and> constrained_values 5 [1] (ex_duplicates ! j) = Some vals)"
    by blast
  have 4: "CreateConstraint 5 [1] ex_duplicates ex_storage = (Inl (UNIQUE, 5, [1]), ex_storage)"
    using CreateConstraint_checks [of "[1]" 5 ex_duplicates ex_storage, THEN conjunct2,
        THEN conjunct2, THEN conjunct2, THEN mp, OF h] d
    by (simp only: if_True)
  from 1 2 3 4 show ?thesis by blast
qed


section \<open>Committing a transaction that wrote nothing\<close>

text \<open>
  C10 as stated fails: a transaction that wrote nothing and is flagged \<open>must_abort\<close> does
  not commit; the assertion at the head of \<^verbatim>\<open>Commit\<close> (line 1235) fails.
\<close>

theorem Commit_read_only_must_abort:
  "deltas (transaction (ex_accessor\<lparr>transaction := ex_transaction\<lparr>must_abort := True\<rparr>\<rparr>)) = []
   \<and> is_transaction_active (ex_accessor\<lparr>transaction := ex_transaction\<lparr>must_abort := True\<rparr>\<rparr>)
   \<and> Commit None (ex_storage, ex_accessor\<lparr>transaction := ex_transaction\<lparr>must_abort := True\<rparr>\<rparr>)
       = (Inl Fatal, ex_storage, ex_accessor\<lparr>transaction := ex_transaction\<lparr>must_abort := True\<rparr>\<rparr>)"
  by (simp add: Commit_def ex_accessor_def ex_transaction_def)

text \<open>
  C10, amended: the transaction is active and not flagged \<open>must_abort\<close>, the two
  assertions at the head of \<^verbatim>\<open>Commit\<close>.
  \<^verbatim>\<open>Commit\<close> of an active transaction whose buffer is empty succeeds; the storage
  differs from the one before only in the commit log, where the start timestamp of the
  transaction is marked finished: no timestamp is drawn, the accessor gets no commit
  timestamp, no cell is written, the constraint sets are as before (no validation has
  inserted an entry) and nothing is appended to the log. The accessor is no longer active.
\<close>

theorem Commit_read_only:
  assumes "is_transaction_active acc" and "\<not> must_abort (transaction acc)"
    and "deltas (transaction acc) = []"
  shows "case Commit desired (s, acc) of (r, s', acc') \<Rightarrow>
           r = Inr (Inr ())
         \<and> s' = s\<lparr>commit_log := MarkFinished (start_timestamp (transaction acc)) (commit_log s)\<rparr>
         \<and> acc' = acc\<lparr>is_transaction_active := False\<rparr>
         \<and> storage_timestamp s' = storage_timestamp s
         \<and> commit_timestamp acc' = commit_timestamp acc
         \<and> commit_timestamps s' = commit_timestamps s
         \<and> constraints s' = constraints s
         \<and> wal_file s' = wal_file s"
  using assms by (simp add: Commit_def Let_def)

theorem Commit_read_only_witness:
  "Commit None (ex_storage, ex_accessor)
     = (Inr (Inr ()), ex_storage\<lparr>commit_log := MarkFinished 4 (commit_log ex_storage)\<rparr>,
        ex_accessor\<lparr>is_transaction_active := False\<rparr>)"
proof -
  have a: "is_transaction_active ex_accessor" and b: "\<not> must_abort (transaction ex_accessor)"
    and c: "deltas (transaction ex_accessor) = []"
    by (simp_all add: ex_accessor_def ex_transaction_def)
  have d: "start_timestamp (transaction ex_accessor) = 4"
    by (simp add: ex_accessor_def ex_transaction_def)
  from Commit_read_only [OF a b c, where desired = None and s = ex_storage] show ?thesis
    by (simp add: d split: prod.splits)
qed

section \<open>The order of the records of a transaction\<close>

lemma wal_pass_vertices:
  "wal_pass s cur final True flt ds = Some rs \<Longrightarrow>
     \<forall>r \<in> set rs. \<exists>x g. r = WalDelta x (OwnerVertex g) final \<and> flt (action x)"
proof (induction ds arbitrary: rs)
  case Nil
  then show ?case by simp
next
  case (Cons d ds)
  then show ?case
    by (auto simp: find_and_apply_deltas_def split: PreviousPtr.splits if_splits)
qed

lemma wal_pass_edges:
  "wal_pass s cur final False flt ds = Some rs \<Longrightarrow>
     \<forall>r \<in> set rs. \<exists>x g. r = WalDelta x (OwnerEdge g) final \<and> flt (action x)"
proof (induction ds arbitrary: rs)
  case Nil
  then show ?case by simp
next
  case (Cons d ds)
  then show ?case
    by (auto simp: find_and_apply_deltas_def split: PreviousPtr.splits if_splits)
qed

lemma wal_pass_total:
  "\<forall>d \<in> set ds. prev_Get s d \<noteq> PtrNull \<Longrightarrow> \<exists>rs. wal_pass s cur final b flt ds = Some rs"
  by (induction ds) (auto split: PreviousPtr.splits)

lemma rank1: "creates_or_modifies_vertex (action x) \<Longrightarrow> rank (WalDelta x (OwnerVertex g) f) = 1"
  by (cases "action x") (simp_all add: rank_def)

lemma rank2: "creates_edge (action x) \<Longrightarrow> rank (WalDelta x (OwnerVertex g) f) = 2"
  by (cases "action x") (simp_all add: rank_def)

lemma rank3: "modifies_edge (action x) \<Longrightarrow> rank (WalDelta x (OwnerEdge g) f) = 3"
  by (cases "action x") (simp_all add: rank_def)

lemma rank4: "deletes_edge (action x) \<Longrightarrow> rank (WalDelta x (OwnerVertex g) f) = 4"
  by (cases "action x") (simp_all add: rank_def)

lemma rank5: "deletes_vertex (action x) \<Longrightarrow> rank (WalDelta x (OwnerVertex g) f) = 5"
  by (cases "action x") (simp_all add: rank_def)

lemma sorted_const: "\<forall>x \<in> set xs. f x = (c::nat) \<Longrightarrow> sorted (map f xs)"
  by (induction xs) auto

text \<open>
  C4 as stated fails: for transaction 1000 of \<open>ex_wal_storage\<close> the record that creates
  vertex 4 follows the record that sets a property of vertex 3.
\<close>

theorem wal_creation_after_mutation:
  "wal_group ex_wal_storage ex_wal_transaction 5 =
     Some [WalDelta (ex_wal_deltas ! 0) (OwnerVertex 3) 5,
           WalDelta (ex_wal_deltas ! 1) (OwnerVertex 3) 5,
           WalDelta (ex_wal_deltas ! 2) (OwnerVertex 4) 5,
           WalTransactionEnd 5]
   \<and> record_type (WalDelta (ex_wal_deltas ! 1) (OwnerVertex 3) 5) = Some VERTEX_SET_PROPERTY
   \<and> record_type (WalDelta (ex_wal_deltas ! 2) (OwnerVertex 4) 5) = Some VERTEX_CREATE
   \<and> \<not> sorted (map claimed_rank [VERTEX_CREATE, VERTEX_SET_PROPERTY, VERTEX_CREATE, TRANSACTION_END])"
  by (simp add: wal_group_def ex_wal_storage_def ex_wal_transaction_def ex_wal_deltas_def
      ex_transaction_def ex_storage_def prev_Get_def load_cell_def find_and_apply_deltas_def
      vertex_delta_def load_timestamp_def plain_vertex_def)

text \<open>
  C4, amended. When the log is enabled and every delta of the buffer has a back pointer,
  the records of a transaction are appended to the log as one group that ends with the
  \<open>TRANSACTION_END\<close> record of the timestamp passed (\<^verbatim>\<open>Commit\<close> passes its commit
  timestamp), and in the group the records that create vertices or set properties or labels
  of vertices (these in one pass, vertex by vertex) precede the records that create edges,
  which precede those that set properties of edges, which precede those that delete edges,
  which precede those that delete vertices.
\<close>

theorem wal_group_order:
  assumes "\<forall>d \<in> set (deltas t). prev_Get s d \<noteq> PtrNull" and "wal_enabled s"
  shows "\<exists>body ok. wal_group s t final = Some (body @ [WalTransactionEnd final])
           \<and> AppendToWalDataManipulation t final s
               = Some (ok, s\<lparr>wal_file := wal_file s @ body @ [WalTransactionEnd final]\<rparr>)
           \<and> sorted (map rank body)
           \<and> (\<forall>r \<in> set body. 1 \<le> rank r \<and> rank r \<le> 5 \<and> record_type r \<noteq> None)
           \<and> rank (WalTransactionEnd final) = 6"
proof -
  let ?cur = "load_cell s (transaction_id t)"
  from assms(1) obtain p1 where p1: "wal_pass s ?cur final True creates_or_modifies_vertex (deltas t) = Some p1"
    using wal_pass_total by blast
  from assms(1) obtain p2 where p2: "wal_pass s ?cur final True creates_edge (deltas t) = Some p2"
    using wal_pass_total by blast
  from assms(1) obtain p3 where p3: "wal_pass s ?cur final False modifies_edge (deltas t) = Some p3"
    using wal_pass_total by blast
  from assms(1) obtain p4 where p4: "wal_pass s ?cur final True deletes_edge (deltas t) = Some p4"
    using wal_pass_total by blast
  from assms(1) obtain p5 where p5: "wal_pass s ?cur final True deletes_vertex (deltas t) = Some p5"
    using wal_pass_total by blast
  have r1: "\<forall>r \<in> set p1. rank r = 1" using wal_pass_vertices [OF p1] rank1 by fastforce
  have r2: "\<forall>r \<in> set p2. rank r = 2" using wal_pass_vertices [OF p2] rank2 by fastforce
  have r3: "\<forall>r \<in> set p3. rank r = 3" using wal_pass_edges [OF p3] rank3 by fastforce
  have r4: "\<forall>r \<in> set p4. rank r = 4" using wal_pass_vertices [OF p4] rank4 by fastforce
  have r5: "\<forall>r \<in> set p5. rank r = 5" using wal_pass_vertices [OF p5] rank5 by fastforce
  let ?body = "p1 @ p2 @ p3 @ p4 @ p5"
  have g: "wal_group s t final = Some (?body @ [WalTransactionEnd final])"
    using p1 p2 p3 p4 p5 by (simp add: wal_group_def Let_def)
  have a: "AppendToWalDataManipulation t final s
      = Some (replicas_confirm s, s\<lparr>wal_file := wal_file s @ ?body @ [WalTransactionEnd final]\<rparr>)"
    using g assms(2) by (simp add: AppendToWalDataManipulation_def)
  have s: "sorted (map rank ?body)"
    using r1 r2 r3 r4 r5 sorted_const [of p1 rank 1] sorted_const [of p2 rank 2]
      sorted_const [of p3 rank 3] sorted_const [of p4 rank 4] sorted_const [of p5 rank 5]
    by (auto simp: sorted_append)
  have nz: "\<forall>r \<in> set ?body. 1 \<le> rank r \<and> rank r \<le> 5"
    using r1 r2 r3 r4 r5 by auto
  have nn: "\<forall>r \<in> set ?body. record_type r \<noteq> None"
  proof
    fix r assume "r \<in> set ?body"
    with nz have "1 \<le> rank r" by blast
    then show "record_type r \<noteq> None" by (cases "record_type r") (simp_all add: rank_def)
  qed
  have e: "rank (WalTransactionEnd final) = 6" by (simp add: rank_def)
  from g a s nz nn e show ?thesis by blast
qed

theorem wal_group_order_witness:
  "\<exists>body ok. wal_group ex_wal_storage ex_wal_transaction 5 = Some (body @ [WalTransactionEnd 5])
     \<and> AppendToWalDataManipulation ex_wal_transaction 5 ex_wal_storage
         = Some (ok, ex_wal_storage\<lparr>wal_file := wal_file ex_wal_storage @ body @ [WalTransactionEnd 5]\<rparr>)
     \<and> sorted (map rank body)"
proof -
  have a: "\<forall>d \<in> set (deltas ex_wal_transaction). prev_Get ex_wal_storage d \<noteq> PtrNull"
    by (simp add: ex_wal_storage_def ex_wal_transaction_def ex_wal_deltas_def prev_Get_def)
  have b: "wal_enabled ex_wal_storage"
    by (simp add: ex_wal_storage_def ex_storage_def)
  from wal_group_order [OF a b, of 5] show ?thesis by blast
qed


section \<open>What a garbage collection unlinks and frees\<close>






















lemma remove_all_None: "remove_all gs m = Some m' \<Longrightarrow> m g = None \<Longrightarrow> m' g = None"
  by (induction gs arbitrary: m) (auto split: if_splits)






section \<open>What an abort leaves\<close>































section \<open>Abort undoes the writes of its transaction\<close>







section \<open>Unique constraint violations at commit\<close>



































end
